theory Spec2Isabelle
  imports Main "HOL-Library.Word"
begin

section \<open>The Android bridge: \<^verbatim>\<open>Source/utils/android_accessibility.cpp\<close>\<close>

subsection \<open>JNI values\<close>

text \<open>
  The JNI primitive types have fixed widths: \<^verbatim>\<open>jint\<close> is 32 bits, \<^verbatim>\<open>jlong\<close> 64 bits,
  \<^verbatim>\<open>jboolean\<close> an unsigned byte. A \<^verbatim>\<open>jfloat\<close> is only ever passed through by this
  code, so it is carried as its 32-bit pattern. References (\<^verbatim>\<open>jclass\<close>,
  \<^verbatim>\<open>jmethodID\<close>) are opaque; a C++ pointer that may be \<^verbatim>\<open>nullptr\<close> is an
  \<open>option\<close>, with \<open>None\<close> for \<^verbatim>\<open>nullptr\<close>.
\<close>

type_synonym jint = "32 word"
type_synonym jlong = "64 word"
type_synonym jboolean = "8 word"
type_synonym jfloat = "32 word"
type_synonym jclass = nat
type_synonym jmethodID = nat

text \<open>C++ \<^verbatim>\<open>int\<close> and \<^verbatim>\<open>float\<close> on every Android ABI; \<^verbatim>\<open>long\<close> on the 64-bit ABIs.\<close>

type_synonym c_int = "32 word"
type_synonym c_float = "32 word"
type_synonym c_long = "64 word"

definition JNI_OK :: jint where
  "JNI_OK = 0"

definition JNI_TRUE :: jboolean where
  "JNI_TRUE = 1"

text \<open>The gesture codes of \<^verbatim>\<open>android_accessibility.hpp\<close>.\<close>

definition GESTURE_NONE :: c_int where
  "GESTURE_NONE = 0"

definition GESTURE_SWIPE_LEFT :: c_int where
  "GESTURE_SWIPE_LEFT = 1"

definition GESTURE_SWIPE_RIGHT :: c_int where
  "GESTURE_SWIPE_RIGHT = 2"

definition GESTURE_DOUBLE_TAP :: c_int where
  "GESTURE_DOUBLE_TAP = 3"

text \<open>
  A \<^verbatim>\<open>const char *\<close> read from a buffer: the bytes up to the first NUL.
  \<^verbatim>\<open>std::string::c_str()\<close> and \<^verbatim>\<open>data()\<close> of a view onto a \<^verbatim>\<open>std::string\<close> or onto
  a C string are such buffers.
\<close>

definition c_str :: "string \<Rightarrow> string" where
  "c_str s = takeWhile (\<lambda>c. c \<noteq> CHR 0x00) s"

text \<open>The arguments of a variadic \<^verbatim>\<open>CallStatic...Method\<close>.\<close>

datatype jvalue =
    JString string
  | JBoolean jboolean
  | JInt jint
  | JFloat jfloat
  | JLong jlong

subsection \<open>The virtual machine, as the code sees it\<close>

text \<open>
  \<^verbatim>\<open>g_jvm\<close> is stored by \<^verbatim>\<open>JNI_OnLoad\<close>, which the runtime runs when it loads the
  library and so before any bridge operation; the operations below are the code with
  \<^verbatim>\<open>g_jvm\<close> pointing to the machine \<open>vm\<close>. What the machine answers is not decided by this
  repository: it is the parameter \<open>vm\<close>, the answers the calling thread gets during one
  operation. \<open>vm_GetEnv\<close> and \<open>vm_AttachCurrentThread\<close> are the return codes of the two
  \<^verbatim>\<open>JavaVM\<close> calls; the \<open>env_\<close> fields are the answers of the thread's \<^verbatim>\<open>JNIEnv\<close>.
  The managed methods are assumed to return.
\<close>

record JavaVM =
  vm_GetEnv :: jint
  vm_AttachCurrentThread :: jint
  env_FindClass :: "string \<Rightarrow> jclass option"
  env_GetStaticMethodID :: "jclass \<Rightarrow> string \<Rightarrow> string \<Rightarrow> jmethodID option"
  env_CallStaticBooleanMethod :: "jclass option \<Rightarrow> jmethodID option \<Rightarrow> jvalue list \<Rightarrow> jboolean"
  env_CallStaticIntMethod :: "jclass option \<Rightarrow> jmethodID option \<Rightarrow> jvalue list \<Rightarrow> jint"

text \<open>
  Every call into the machine is recorded, with what it returned, in the order the code
  makes it. A run of \<^verbatim>\<open>InitializeJNIMethods\<close> is recorded as one entry holding its own
  calls and its return value.
\<close>

datatype jni_call =
    GetEnv jint
  | AttachCurrentThread jint
  | DetachCurrentThread
  | FindClass string "jclass option"
  | GetStaticMethodID jclass string string "jmethodID option"
  | NewStringUTF string
  | DeleteLocalRef string
  | CallStaticBooleanMethod "jclass option" "jmethodID option" "jvalue list" jboolean
  | CallStaticVoidMethod "jclass option" "jmethodID option" "jvalue list"
  | CallStaticIntMethod "jclass option" "jmethodID option" "jvalue list" jint

datatype bridge_event =
    JNI jni_call
  | InitializeJNIMethods_call "jni_call list" bool

subsection \<open>The cached method references\<close>

record jni_methods =
  g_isScreenReaderEnabled :: "jmethodID option"
  g_speak :: "jmethodID option"
  g_stop :: "jmethodID option"
  g_isReady :: "jmethodID option"
  g_handleGesture :: "jmethodID option"

text \<open>The static initialisers: every reference starts as \<^verbatim>\<open>nullptr\<close>.\<close>

definition jni_methods_init :: jni_methods where
  "jni_methods_init =
     \<lparr>g_isScreenReaderEnabled = None, g_speak = None, g_stop = None,
      g_isReady = None, g_handleGesture = None\<rparr>"

definition AccessibilityManager_class :: string where
  "AccessibilityManager_class = ''org/diasurgical/devilutionx/AccessibilityManager''"

definition AndroidTextToSpeech_class :: string where
  "AndroidTextToSpeech_class = ''org/diasurgical/devilutionx/AndroidTextToSpeech''"

definition GestureDetector_class :: string where
  "GestureDetector_class = ''org/diasurgical/devilutionx/GestureDetector''"

subsection \<open>\<^verbatim>\<open>InitializeJNIMethods\<close>\<close>

text \<open>
  Returns the \<^verbatim>\<open>bool\<close> of the C++ function, the references as the function leaves
  them, and the calls it made. Each early \<^verbatim>\<open>return false\<close> is a branch; the three
  TTS lookups are all made before the one test that follows them.
\<close>

definition InitializeJNIMethods :: "JavaVM \<Rightarrow> jni_methods \<Rightarrow> bool \<times> jni_methods \<times> jni_call list" where
  "InitializeJNIMethods env g =
     (case env_FindClass env AccessibilityManager_class of
        None \<Rightarrow> (False, g, [FindClass AccessibilityManager_class None])
      | Some accessibilityManagerClass \<Rightarrow>
          let m1 = env_GetStaticMethodID env accessibilityManagerClass ''isScreenReaderEnabled'' ''()Z'';
              g1 = g\<lparr>g_isScreenReaderEnabled := m1\<rparr>;
              t1 = [FindClass AccessibilityManager_class (Some accessibilityManagerClass),
                    GetStaticMethodID accessibilityManagerClass ''isScreenReaderEnabled'' ''()Z'' m1]
          in if g_isScreenReaderEnabled g1 = None then (False, g1, t1)
          else
            (case env_FindClass env AndroidTextToSpeech_class of
               None \<Rightarrow> (False, g1, t1 @ [FindClass AndroidTextToSpeech_class None])
             | Some ttsClass \<Rightarrow>
                 let m2 = env_GetStaticMethodID env ttsClass ''speak'' ''(Ljava/lang/String;Z)V'';
                     m3 = env_GetStaticMethodID env ttsClass ''stop'' ''()V'';
                     m4 = env_GetStaticMethodID env ttsClass ''isReady'' ''()Z'';
                     g2 = g1\<lparr>g_speak := m2, g_stop := m3, g_isReady := m4\<rparr>;
                     t2 = t1 @ [FindClass AndroidTextToSpeech_class (Some ttsClass),
                                GetStaticMethodID ttsClass ''speak'' ''(Ljava/lang/String;Z)V'' m2,
                                GetStaticMethodID ttsClass ''stop'' ''()V'' m3,
                                GetStaticMethodID ttsClass ''isReady'' ''()Z'' m4]
                 in if g_speak g2 = None \<or> g_stop g2 = None \<or> g_isReady g2 = None
                    then (False, g2, t2)
                    else
                      (case env_FindClass env GestureDetector_class of
                         None \<Rightarrow> (False, g2, t2 @ [FindClass GestureDetector_class None])
                       | Some gestureClass \<Rightarrow>
                           let m5 = env_GetStaticMethodID env gestureClass ''handleGesture'' ''(IFFJ)I'';
                               g3 = g2\<lparr>g_handleGesture := m5\<rparr>;
                               t3 = t2 @ [FindClass GestureDetector_class (Some gestureClass),
                                          GetStaticMethodID gestureClass ''handleGesture'' ''(IFFJ)I'' m5]
                           in if g_handleGesture g3 = None then (False, g3, t3)
                              else (True, g3, t3))))"

subsection \<open>The five bridge operations\<close>

text \<open>
  Each operation returns its C++ return value, the cached references as it leaves them
  and the calls it made. \<open>attached\<close> is the local of that name. The first test is the
  early return after a failed \<^verbatim>\<open>AttachCurrentThread\<close>, which is only called when
  \<^verbatim>\<open>GetEnv\<close> did not return \<^verbatim>\<open>JNI_OK\<close>.
\<close>

definition IsAndroidAccessibilityEnabled :: "JavaVM \<Rightarrow> jni_methods \<Rightarrow> bool \<times> jni_methods \<times> bridge_event list" where
  "IsAndroidAccessibilityEnabled vm g =
     (if vm_GetEnv vm \<noteq> JNI_OK \<and> vm_AttachCurrentThread vm \<noteq> JNI_OK
      then (False, g, [JNI (GetEnv (vm_GetEnv vm)), JNI (AttachCurrentThread (vm_AttachCurrentThread vm))])
      else
        let attached = (vm_GetEnv vm \<noteq> JNI_OK);
            t1 = JNI (GetEnv (vm_GetEnv vm)) #
                   (if attached then [JNI (AttachCurrentThread (vm_AttachCurrentThread vm))] else []);
            detach = (if attached then [JNI DetachCurrentThread] else []);
            (initialized, g', t2) =
              (if g_isScreenReaderEnabled g = None
               then (case InitializeJNIMethods vm g of
                       (ok, gi, ti) \<Rightarrow> (ok, gi, [InitializeJNIMethods_call ti ok]))
               else (True, g, []))
        in if \<not> initialized then (False, g', t1 @ t2 @ detach)
           else
             let cls = env_FindClass vm AccessibilityManager_class;
                 result = env_CallStaticBooleanMethod vm cls (g_isScreenReaderEnabled g') []
             in (result = JNI_TRUE, g',
                 t1 @ t2 @
                 [JNI (FindClass AccessibilityManager_class cls),
                  JNI (CallStaticBooleanMethod cls (g_isScreenReaderEnabled g') [] result)] @
                 detach))"

text \<open>
  \<^verbatim>\<open>NewStringUTF(text.data())\<close> reads a C string from the view's buffer; both callers in
  the repository pass a view onto a NUL-terminated buffer, so it reads \<open>c_str text\<close>.
  \<^verbatim>\<open>static_cast<jboolean>(force)\<close> is 1 or 0.
\<close>

definition SpeakAndroidText :: "JavaVM \<Rightarrow> jni_methods \<Rightarrow> string \<Rightarrow> bool \<Rightarrow> unit \<times> jni_methods \<times> bridge_event list" where
  "SpeakAndroidText vm g text force =
     (if vm_GetEnv vm \<noteq> JNI_OK \<and> vm_AttachCurrentThread vm \<noteq> JNI_OK
      then ((), g, [JNI (GetEnv (vm_GetEnv vm)), JNI (AttachCurrentThread (vm_AttachCurrentThread vm))])
      else
        let attached = (vm_GetEnv vm \<noteq> JNI_OK);
            t1 = JNI (GetEnv (vm_GetEnv vm)) #
                   (if attached then [JNI (AttachCurrentThread (vm_AttachCurrentThread vm))] else []);
            detach = (if attached then [JNI DetachCurrentThread] else []);
            (initialized, g', t2) =
              (if g_speak g = None
               then (case InitializeJNIMethods vm g of
                       (ok, gi, ti) \<Rightarrow> (ok, gi, [InitializeJNIMethods_call ti ok]))
               else (True, g, []))
        in if \<not> initialized then ((), g', t1 @ t2 @ detach)
           else
             let javaText = c_str text;
                 cls = env_FindClass vm AndroidTextToSpeech_class;
                 args = [JString javaText, JBoolean (if force then 1 else 0)]
             in ((), g',
                 t1 @ t2 @
                 [JNI (NewStringUTF javaText),
                  JNI (FindClass AndroidTextToSpeech_class cls),
                  JNI (CallStaticVoidMethod cls (g_speak g') args),
                  JNI (DeleteLocalRef javaText)] @
                 detach))"

definition StopAndroidSpeech :: "JavaVM \<Rightarrow> jni_methods \<Rightarrow> unit \<times> jni_methods \<times> bridge_event list" where
  "StopAndroidSpeech vm g =
     (if vm_GetEnv vm \<noteq> JNI_OK \<and> vm_AttachCurrentThread vm \<noteq> JNI_OK
      then ((), g, [JNI (GetEnv (vm_GetEnv vm)), JNI (AttachCurrentThread (vm_AttachCurrentThread vm))])
      else
        let attached = (vm_GetEnv vm \<noteq> JNI_OK);
            t1 = JNI (GetEnv (vm_GetEnv vm)) #
                   (if attached then [JNI (AttachCurrentThread (vm_AttachCurrentThread vm))] else []);
            detach = (if attached then [JNI DetachCurrentThread] else []);
            (initialized, g', t2) =
              (if g_stop g = None
               then (case InitializeJNIMethods vm g of
                       (ok, gi, ti) \<Rightarrow> (ok, gi, [InitializeJNIMethods_call ti ok]))
               else (True, g, []))
        in if \<not> initialized then ((), g', t1 @ t2 @ detach)
           else
             let cls = env_FindClass vm AndroidTextToSpeech_class
             in ((), g',
                 t1 @ t2 @
                 [JNI (FindClass AndroidTextToSpeech_class cls),
                  JNI (CallStaticVoidMethod cls (g_stop g') [])] @
                 detach))"

definition IsAndroidTTSReady :: "JavaVM \<Rightarrow> jni_methods \<Rightarrow> bool \<times> jni_methods \<times> bridge_event list" where
  "IsAndroidTTSReady vm g =
     (if vm_GetEnv vm \<noteq> JNI_OK \<and> vm_AttachCurrentThread vm \<noteq> JNI_OK
      then (False, g, [JNI (GetEnv (vm_GetEnv vm)), JNI (AttachCurrentThread (vm_AttachCurrentThread vm))])
      else
        let attached = (vm_GetEnv vm \<noteq> JNI_OK);
            t1 = JNI (GetEnv (vm_GetEnv vm)) #
                   (if attached then [JNI (AttachCurrentThread (vm_AttachCurrentThread vm))] else []);
            detach = (if attached then [JNI DetachCurrentThread] else []);
            (initialized, g', t2) =
              (if g_isReady g = None
               then (case InitializeJNIMethods vm g of
                       (ok, gi, ti) \<Rightarrow> (ok, gi, [InitializeJNIMethods_call ti ok]))
               else (True, g, []))
        in if \<not> initialized then (False, g', t1 @ t2 @ detach)
           else
             let cls = env_FindClass vm AndroidTextToSpeech_class;
                 result = env_CallStaticBooleanMethod vm cls (g_isReady g') []
             in (result = JNI_TRUE, g',
                 t1 @ t2 @
                 [JNI (FindClass AndroidTextToSpeech_class cls),
                  JNI (CallStaticBooleanMethod cls (g_isReady g') [] result)] @
                 detach))"

text \<open>
  The four casts of the arguments keep the values (\<^verbatim>\<open>long\<close> to \<^verbatim>\<open>jlong\<close> at 64 bits),
  and so does the cast of the \<^verbatim>\<open>jint\<close> result to \<^verbatim>\<open>int\<close>.
\<close>

definition HandleAndroidGesture :: "JavaVM \<Rightarrow> jni_methods \<Rightarrow> c_int \<Rightarrow> c_float \<Rightarrow> c_float \<Rightarrow> c_long \<Rightarrow> c_int \<times> jni_methods \<times> bridge_event list" where
  "HandleAndroidGesture vm g action x y time =
     (if vm_GetEnv vm \<noteq> JNI_OK \<and> vm_AttachCurrentThread vm \<noteq> JNI_OK
      then (0, g, [JNI (GetEnv (vm_GetEnv vm)), JNI (AttachCurrentThread (vm_AttachCurrentThread vm))])
      else
        let attached = (vm_GetEnv vm \<noteq> JNI_OK);
            t1 = JNI (GetEnv (vm_GetEnv vm)) #
                   (if attached then [JNI (AttachCurrentThread (vm_AttachCurrentThread vm))] else []);
            detach = (if attached then [JNI DetachCurrentThread] else []);
            (initialized, g', t2) =
              (if g_handleGesture g = None
               then (case InitializeJNIMethods vm g of
                       (ok, gi, ti) \<Rightarrow> (ok, gi, [InitializeJNIMethods_call ti ok]))
               else (True, g, []))
        in if \<not> initialized then (0, g', t1 @ t2 @ detach)
           else
             let cls = env_FindClass vm GestureDetector_class;
                 args = [JInt action, JFloat x, JFloat y, JLong time];
                 result = env_CallStaticIntMethod vm cls (g_handleGesture g') args
             in (result, g',
                 t1 @ t2 @
                 [JNI (FindClass GestureDetector_class cls),
                  JNI (CallStaticIntMethod cls (g_handleGesture g') args result)] @
                 detach))"

subsection \<open>Any operation, and runs of operations\<close>

text \<open>
  To speak about every bridge operation at once: an operation with its arguments, its
  return value, and the dispatch to the five functions above.
\<close>

datatype bridge_op =
    Op_IsAndroidAccessibilityEnabled
  | Op_SpeakAndroidText string bool
  | Op_StopAndroidSpeech
  | Op_IsAndroidTTSReady
  | Op_HandleAndroidGesture c_int c_float c_float c_long

datatype bridge_result =
    Ret_bool bool
  | Ret_void
  | Ret_int c_int

fun bridge_run :: "JavaVM \<Rightarrow> jni_methods \<Rightarrow> bridge_op \<Rightarrow> bridge_result \<times> jni_methods \<times> bridge_event list" where
  "bridge_run vm g Op_IsAndroidAccessibilityEnabled =
     (case IsAndroidAccessibilityEnabled vm g of (r, g', t) \<Rightarrow> (Ret_bool r, g', t))"
| "bridge_run vm g (Op_SpeakAndroidText text force) =
     (case SpeakAndroidText vm g text force of (r, g', t) \<Rightarrow> (Ret_void, g', t))"
| "bridge_run vm g Op_StopAndroidSpeech =
     (case StopAndroidSpeech vm g of (r, g', t) \<Rightarrow> (Ret_void, g', t))"
| "bridge_run vm g Op_IsAndroidTTSReady =
     (case IsAndroidTTSReady vm g of (r, g', t) \<Rightarrow> (Ret_bool r, g', t))"
| "bridge_run vm g (Op_HandleAndroidGesture action x y time) =
     (case HandleAndroidGesture vm g action x y time of (r, g', t) \<Rightarrow> (Ret_int r, g', t))"

text \<open>The cached reference each operation tests before it calls \<^verbatim>\<open>InitializeJNIMethods\<close>.\<close>

fun guard :: "bridge_op \<Rightarrow> jni_methods \<Rightarrow> jmethodID option" where
  "guard Op_IsAndroidAccessibilityEnabled g = g_isScreenReaderEnabled g"
| "guard (Op_SpeakAndroidText text force) g = g_speak g"
| "guard Op_StopAndroidSpeech g = g_stop g"
| "guard Op_IsAndroidTTSReady g = g_isReady g"
| "guard (Op_HandleAndroidGesture action x y time) g = g_handleGesture g"

text \<open>The value each operation returns on its early returns.\<close>

fun default_result :: "bridge_op \<Rightarrow> bridge_result" where
  "default_result Op_IsAndroidAccessibilityEnabled = Ret_bool False"
| "default_result (Op_SpeakAndroidText text force) = Ret_void"
| "default_result Op_StopAndroidSpeech = Ret_void"
| "default_result Op_IsAndroidTTSReady = Ret_bool False"
| "default_result (Op_HandleAndroidGesture action x y time) = Ret_int 0"

text \<open>
  A run of operations, each with the answers the machine gives during it: the
  references are threaded through, the calls are collected in order.
\<close>

fun bridge_runs :: "jni_methods \<Rightarrow> (JavaVM \<times> bridge_op) list \<Rightarrow> jni_methods \<times> bridge_event list" where
  "bridge_runs g [] = (g, [])"
| "bridge_runs g ((vm, op) # rest) =
     (case bridge_run vm g op of
        (r, g', t) \<Rightarrow> (case bridge_runs g' rest of (g'', t') \<Rightarrow> (g'', t @ t')))"

text \<open>The three components of what an operation returns.\<close>

abbreviation result_of :: "'r \<times> jni_methods \<times> 'c \<Rightarrow> 'r" where
  "result_of x \<equiv> fst x"

abbreviation methods_of :: "'r \<times> jni_methods \<times> 'c \<Rightarrow> jni_methods" where
  "methods_of x \<equiv> fst (snd x)"

abbreviation calls_of :: "'r \<times> jni_methods \<times> 'c \<Rightarrow> 'c" where
  "calls_of x \<equiv> snd (snd x)"

text \<open>Observations on a list of recorded calls.\<close>

fun is_init_call :: "bridge_event \<Rightarrow> bool" where
  "is_init_call (InitializeJNIMethods_call t ok) = True"
| "is_init_call (JNI c) = False"

fun is_managed_call :: "jni_call \<Rightarrow> bool" where
  "is_managed_call (CallStaticBooleanMethod cls m args r) = True"
| "is_managed_call (CallStaticVoidMethod cls m args) = True"
| "is_managed_call (CallStaticIntMethod cls m args r) = True"
| "is_managed_call c = False"

fun is_method_lookup :: "jni_call \<Rightarrow> bool" where
  "is_method_lookup (GetStaticMethodID cls mname sig m) = True"
| "is_method_lookup c = False"

definition all_resolved :: "jni_methods \<Rightarrow> bool" where
  "all_resolved g \<longleftrightarrow>
     g_isScreenReaderEnabled g \<noteq> None \<and> g_speak g \<noteq> None \<and> g_stop g \<noteq> None \<and>
     g_isReady g \<noteq> None \<and> g_handleGesture g \<noteq> None"

text \<open>All calls into the machine in order, those of \<^verbatim>\<open>InitializeJNIMethods\<close> included.\<close>

fun jni_calls :: "bridge_event list \<Rightarrow> jni_call list" where
  "jni_calls [] = []"
| "jni_calls (JNI c # es) = c # jni_calls es"
| "jni_calls (InitializeJNIMethods_call t ok # es) = t @ jni_calls es"

text \<open>
  The eight lookups of \<^verbatim>\<open>InitializeJNIMethods\<close>, as questions to the machine: is the class
  found, and is the method with that name and signature found in it.
\<close>

definition class_found :: "JavaVM \<Rightarrow> string \<Rightarrow> bool" where
  "class_found vm cname \<longleftrightarrow> env_FindClass vm cname \<noteq> None"

definition method_found :: "JavaVM \<Rightarrow> string \<Rightarrow> string \<Rightarrow> string \<Rightarrow> bool" where
  "method_found vm cname mname sig \<longleftrightarrow>
     (case env_FindClass vm cname of
        None \<Rightarrow> False
      | Some cls \<Rightarrow> env_GetStaticMethodID vm cls mname sig \<noteq> None)"

definition every_lookup_succeeds :: "JavaVM \<Rightarrow> bool" where
  "every_lookup_succeeds vm \<longleftrightarrow>
     class_found vm AccessibilityManager_class \<and>
     class_found vm AndroidTextToSpeech_class \<and>
     class_found vm GestureDetector_class \<and>
     method_found vm AccessibilityManager_class ''isScreenReaderEnabled'' ''()Z'' \<and>
     method_found vm AndroidTextToSpeech_class ''speak'' ''(Ljava/lang/String;Z)V'' \<and>
     method_found vm AndroidTextToSpeech_class ''stop'' ''()V'' \<and>
     method_found vm AndroidTextToSpeech_class ''isReady'' ''()Z'' \<and>
     method_found vm GestureDetector_class ''handleGesture'' ''(IFFJ)I''"

text \<open>The two failures an operation can meet before its managed call.\<close>

definition attach_fails :: "JavaVM \<Rightarrow> bool" where
  "attach_fails vm \<longleftrightarrow> vm_GetEnv vm \<noteq> JNI_OK \<and> vm_AttachCurrentThread vm \<noteq> JNI_OK"

definition resolution_fails :: "JavaVM \<Rightarrow> jni_methods \<Rightarrow> bridge_op \<Rightarrow> bool" where
  "resolution_fails vm g op \<longleftrightarrow>
     \<not> attach_fails vm \<and> guard op g = None \<and> \<not> fst (InitializeJNIMethods vm g)"

section \<open>The facade: \<^verbatim>\<open>Source/utils/screen_reader.cpp\<close>\<close>

text \<open>
  The backend is chosen by the preprocessor: \<^verbatim>\<open>_WIN32\<close>, else \<^verbatim>\<open>__ANDROID__\<close>, else the
  Speech Dispatcher branch (Linux and other Unix).
\<close>

datatype platform = Windows | Android | Linux

type_synonym wstring = "16 word list"
type_synonym SPDConnection = nat

text \<open>
  What the host answers during one call of the facade. \<^verbatim>\<open>ToWideChar\<close> is declared in
  \<^verbatim>\<open>utils/file_util.h\<close>, which is not part of these sources: it is a parameter, and its
  \<^verbatim>\<open>nullptr\<close> result, which \<^verbatim>\<open>SpeakText\<close> tests for, is \<open>None\<close>. \<open>spd_open_result\<close> is the
  pointer \<^verbatim>\<open>spd_open\<close> returns, and \<open>jvm\<close> the machine of the Android bridge.
\<close>

record host =
  ToWideChar :: "string \<Rightarrow> wstring option"
  spd_open_result :: "SPDConnection option"
  jvm :: JavaVM

text \<open>
  The calls the facade makes to its backend, in order. The Android backend is
  \<^verbatim>\<open>SpeakAndroidText\<close> of this repository; its entry holds the arguments and the calls
  that run of it made.
\<close>

datatype backend_call =
    Tolk_Load
  | Tolk_Unload
  | Tolk_Output wstring bool
  | spd_open string string "SPDConnection option"
  | spd_close "SPDConnection option"
  | spd_say "SPDConnection option" string
  | SpeakAndroidText_call string bool "bridge_event list"

text \<open>
  The process-wide state: the function-local static \<^verbatim>\<open>SpokenText\<close>, the global
  \<^verbatim>\<open>Speechd\<close>, the statics of the Android bridge, and the backend calls made so far.
\<close>

record screen_reader =
  SpokenText :: string
  Speechd :: "SPDConnection option"
  android :: jni_methods
  backend_calls :: "backend_call list"

text \<open>At process start: an empty \<^verbatim>\<open>std::string\<close>, zero-initialised pointers, no calls.\<close>

definition screen_reader_init :: screen_reader where
  "screen_reader_init =
     \<lparr>SpokenText = [], Speechd = None, android = jni_methods_init, backend_calls = []\<rparr>"

definition InitializeScreenReader :: "platform \<Rightarrow> host \<Rightarrow> screen_reader \<Rightarrow> screen_reader" where
  "InitializeScreenReader p h s =
     (case p of
        Windows \<Rightarrow> s\<lparr>backend_calls := backend_calls s @ [Tolk_Load]\<rparr>
      | Android \<Rightarrow> s
      | Linux \<Rightarrow>
          s\<lparr>Speechd := spd_open_result h,
            backend_calls := backend_calls s @ [spd_open ''DevilutionX'' ''DevilutionX'' (spd_open_result h)]\<rparr>)"

definition ShutDownScreenReader :: "platform \<Rightarrow> screen_reader \<Rightarrow> screen_reader" where
  "ShutDownScreenReader p s =
     (case p of
        Windows \<Rightarrow> s\<lparr>backend_calls := backend_calls s @ [Tolk_Unload]\<rparr>
      | Android \<Rightarrow> s
      | Linux \<Rightarrow> s\<lparr>backend_calls := backend_calls s @ [spd_close (Speechd s)]\<rparr>)"

text \<open>
  \<^verbatim>\<open>SpokenText == text\<close> compares the contents. After the assignment each branch reads
  \<^verbatim>\<open>SpokenText\<close>, not \<^verbatim>\<open>text\<close>.
\<close>

definition SpeakText :: "platform \<Rightarrow> host \<Rightarrow> string \<Rightarrow> bool \<Rightarrow> screen_reader \<Rightarrow> screen_reader" where
  "SpeakText p h text force s =
     (if \<not> force \<and> SpokenText s = text then s
      else
        let s1 = s\<lparr>SpokenText := text\<rparr>
        in case p of
             Windows \<Rightarrow>
               (case ToWideChar h (SpokenText s1) of
                  None \<Rightarrow> s1
                | Some textUtf16 \<Rightarrow>
                    s1\<lparr>backend_calls := backend_calls s1 @ [Tolk_Output textUtf16 True]\<rparr>)
           | Android \<Rightarrow>
               (case SpeakAndroidText (jvm h) (android s1) (SpokenText s1) force of
                  (r, g', t) \<Rightarrow>
                    s1\<lparr>android := g',
                       backend_calls := backend_calls s1 @ [SpeakAndroidText_call (SpokenText s1) force t]\<rparr>)
           | Linux \<Rightarrow>
               s1\<lparr>backend_calls := backend_calls s1 @ [spd_say (Speechd s1) (c_str (SpokenText s1))]\<rparr>)"

text \<open>The backend calls that speak, and those that open the connection.\<close>

fun is_speak_call :: "backend_call \<Rightarrow> bool" where
  "is_speak_call (Tolk_Output w interrupt) = True"
| "is_speak_call (spd_say conn str) = True"
| "is_speak_call (SpeakAndroidText_call text force t) = True"
| "is_speak_call c = False"

fun is_open_call :: "backend_call \<Rightarrow> bool" where
  "is_open_call Tolk_Load = True"
| "is_open_call (spd_open client connection conn) = True"
| "is_open_call c = False"

definition speak_calls :: "screen_reader \<Rightarrow> backend_call list" where
  "speak_calls s = filter is_speak_call (backend_calls s)"

section \<open>Concrete machines and hosts\<close>

text \<open>
  A machine on which every class and method is found, for a thread that is already
  attached; the managed boolean methods answer true and \<^verbatim>\<open>handleGesture\<close> answers 0.
\<close>

definition vm_attached :: JavaVM where
  "vm_attached =
     \<lparr>vm_GetEnv = 0, vm_AttachCurrentThread = 0,
      env_FindClass = (\<lambda>cname.
         if cname = AccessibilityManager_class then Some 1
         else if cname = AndroidTextToSpeech_class then Some 2
         else if cname = GestureDetector_class then Some 3 else None),
      env_GetStaticMethodID = (\<lambda>cls mname sig. Some (10 * cls + length mname)),
      env_CallStaticBooleanMethod = (\<lambda>cls m args. 1),
      env_CallStaticIntMethod = (\<lambda>cls m args. 0)\<rparr>"

text \<open>The same machine for a thread that is not attached (\<^verbatim>\<open>JNI_EDETACHED\<close> is -2).\<close>

definition vm_detached :: JavaVM where
  "vm_detached = vm_attached\<lparr>vm_GetEnv := - 2\<rparr>"

text \<open>A thread that is not attached and cannot be (\<^verbatim>\<open>JNI_ERR\<close> is -1).\<close>

definition vm_no_attach :: JavaVM where
  "vm_no_attach = vm_attached\<lparr>vm_GetEnv := - 2, vm_AttachCurrentThread := - 1\<rparr>"

text \<open>A machine without the \<^verbatim>\<open>GestureDetector\<close> class.\<close>

definition vm_no_gesture :: JavaVM where
  "vm_no_gesture =
     vm_attached\<lparr>env_FindClass := (\<lambda>cname.
         if cname = AccessibilityManager_class then Some 1
         else if cname = AndroidTextToSpeech_class then Some 2 else None)\<rparr>"

text \<open>A Windows host on which the conversion to UTF-16 yields \<^verbatim>\<open>nullptr\<close>.\<close>

definition host_no_conversion :: host where
  "host_no_conversion = \<lparr>ToWideChar = (\<lambda>s. None), spd_open_result = None, jvm = vm_attached\<rparr>"

text \<open>A host on which it succeeds, \<^verbatim>\<open>spd_open\<close> returns a connection and the thread is attached.\<close>

definition host_ok :: host where
  "host_ok =
     \<lparr>ToWideChar = (\<lambda>s. Some (map (\<lambda>c. of_nat (of_char c)) s)),
      spd_open_result = Some 1, jvm = vm_attached\<rparr>"

text \<open>
  The references after a complete initialisation on \<open>vm_attached\<close>, and after the one that
  stops at the missing class on \<open>vm_no_gesture\<close>.
\<close>

definition methods_resolved :: jni_methods where
  "methods_resolved =
     \<lparr>g_isScreenReaderEnabled = Some 31, g_speak = Some 25, g_stop = Some 24,
      g_isReady = Some 27, g_handleGesture = Some 43\<rparr>"

definition methods_partial :: jni_methods where
  "methods_partial = methods_resolved\<lparr>g_handleGesture := None\<rparr>"

text \<open>The calls of a complete initialisation on \<open>vm_attached\<close>.\<close>

definition lookups_complete :: "jni_call list" where
  "lookups_complete =
     [FindClass AccessibilityManager_class (Some 1),
      GetStaticMethodID 1 ''isScreenReaderEnabled'' ''()Z'' (Some 31),
      FindClass AndroidTextToSpeech_class (Some 2),
      GetStaticMethodID 2 ''speak'' ''(Ljava/lang/String;Z)V'' (Some 25),
      GetStaticMethodID 2 ''stop'' ''()V'' (Some 24),
      GetStaticMethodID 2 ''isReady'' ''()Z'' (Some 27),
      FindClass GestureDetector_class (Some 3),
      GetStaticMethodID 3 ''handleGesture'' ''(IFFJ)I'' (Some 43)]"

text \<open>A Linux host on which \<^verbatim>\<open>spd_open\<close> fails and returns \<^verbatim>\<open>NULL\<close>.\<close>

definition host_no_speechd :: host where
  "host_no_speechd = host_ok\<lparr>spd_open_result := None\<rparr>"

text \<open>
  A thread that is not attached but can be, on a machine that finds no class at all;
  the managed \<^verbatim>\<open>int\<close> method, when called, answers 3.
\<close>

definition vm_native_thread :: JavaVM where
  "vm_native_thread =
     vm_detached\<lparr>env_FindClass := (\<lambda>cname. None), env_CallStaticIntMethod := (\<lambda>cls m args. 3)\<rparr>"

section \<open>Verified properties\<close>

subsection \<open>Suppression of repeated utterances\<close>

lemma SpeakText_speak_calls_le:
  "length (speak_calls (SpeakText p h text force s)) \<le> Suc (length (speak_calls s))"
  by (cases p) (simp_all add: SpeakText_def speak_calls_def Let_def split: option.splits prod.splits)

lemma SpokenText_SpeakText_False:
  "SpokenText (SpeakText p h text False s) = text"
  by (cases p) (simp_all add: SpeakText_def Let_def split: option.splits prod.splits)

text \<open>
  C1. On every platform and for every text: a call \<open>SpeakText text False\<close> whose text equals
  the remembered string returns the state as it was, so the remembered string is unchanged
  and no backend call is made. Hence a second call with the same text and
  \<open>force = False\<close>, right after a first one, changes nothing (whatever the host answers), and
  the two calls together add at most one speaking backend call.
\<close>

theorem SpeakText_repeat_is_noop:
  "(SpokenText s = text \<longrightarrow> SpeakText p h text False s = s) \<and>
   SpeakText p h' text False (SpeakText p h text False s) = SpeakText p h text False s \<and>
   length (speak_calls (SpeakText p h' text False (SpeakText p h text False s)))
     \<le> Suc (length (speak_calls s))"
proof (intro conjI)
  show "SpokenText s = text \<longrightarrow> SpeakText p h text False s = s"
    by (simp add: SpeakText_def)
  have again: "SpeakText p h' text False (SpeakText p h text False s) = SpeakText p h text False s"
    using SpokenText_SpeakText_False [of p h "text" s]
    by (simp add: SpeakText_def [of p h' "text" False])
  then show "SpeakText p h' text False (SpeakText p h text False s) = SpeakText p h text False s" .
  show "length (speak_calls (SpeakText p h' text False (SpeakText p h text False s)))
     \<le> Suc (length (speak_calls s))"
    unfolding again by (rule SpeakText_speak_calls_le)
qed

text \<open>
  On Linux, after the connection is opened: the first call speaks, the second finds its
  text remembered and adds nothing.
\<close>

theorem SpeakText_repeat_is_noop_witness:
  "SpokenText (SpeakText Linux host_ok ''Griswold'' False
      (InitializeScreenReader Linux host_ok screen_reader_init)) = ''Griswold'' \<and>
   SpeakText Linux host_ok ''Griswold'' False
     (SpeakText Linux host_ok ''Griswold'' False
        (InitializeScreenReader Linux host_ok screen_reader_init))
     = SpeakText Linux host_ok ''Griswold'' False
         (InitializeScreenReader Linux host_ok screen_reader_init) \<and>
   speak_calls (SpeakText Linux host_ok ''Griswold'' False
     (SpeakText Linux host_ok ''Griswold'' False
        (InitializeScreenReader Linux host_ok screen_reader_init)))
     = [spd_say (Some 1) ''Griswold'']"
  using SpeakText_repeat_is_noop
    [of "SpeakText Linux host_ok ''Griswold'' False (InitializeScreenReader Linux host_ok screen_reader_init)"
        "''Griswold''" Linux host_ok host_ok]
  by (simp add: SpeakText_def InitializeScreenReader_def screen_reader_init_def speak_calls_def
      c_str_def host_ok_def)

text \<open>
  C8. The remembered string starts empty, so the first call \<open>SpeakText [] False\<close> of a
  process, on any platform, is taken for a repetition: the state is returned as it was,
  with no backend call.
\<close>

theorem first_empty_utterance_is_suppressed:
  "SpokenText screen_reader_init = [] \<and>
   backend_calls screen_reader_init = [] \<and>
   SpeakText p h [] False screen_reader_init = screen_reader_init"
  by (simp add: SpeakText_def screen_reader_init_def)

subsection \<open>The Android bridge: auxiliary facts\<close>

lemma InitializeJNIMethods_calls_are_lookups:
  "c \<in> set (calls_of (InitializeJNIMethods vm g)) \<Longrightarrow>
     (\<exists>cname r. c = FindClass cname r) \<or> is_method_lookup c"
  by (auto simp: InitializeJNIMethods_def Let_def split: option.splits if_splits)

lemma InitializeJNIMethods_no_thread_calls:
  "DetachCurrentThread \<notin> set (calls_of (InitializeJNIMethods vm g))"
  "AttachCurrentThread rc \<notin> set (calls_of (InitializeJNIMethods vm g))"
  using InitializeJNIMethods_calls_are_lookups [of _ vm g]
  by fastforce+

lemma InitializeJNIMethods_no_managed_call:
  "\<not> list_ex is_managed_call (calls_of (InitializeJNIMethods vm g))"
  by (simp add: InitializeJNIMethods_def Let_def split: option.splits)

lemma InitializeJNIMethods_True_all_resolved:
  "fst (InitializeJNIMethods vm g) \<Longrightarrow> all_resolved (methods_of (InitializeJNIMethods vm g))"
  by (auto simp: InitializeJNIMethods_def all_resolved_def Let_def split: option.splits if_splits)

lemma count_list_Init_detach:
  "count_list (calls_of (InitializeJNIMethods vm g)) DetachCurrentThread = 0"
  using InitializeJNIMethods_no_thread_calls(1) [of vm g] by (simp add: count_list_0_iff)

lemma jni_calls_append: "jni_calls (xs @ ys) = jni_calls xs @ jni_calls ys"
  by (induction xs rule: jni_calls.induct) simp_all

lemma thread_calls_IsAndroidAccessibilityEnabled:
  "(DetachCurrentThread \<in> set (jni_calls (calls_of (IsAndroidAccessibilityEnabled vm g))) \<longleftrightarrow>
      vm_GetEnv vm \<noteq> JNI_OK \<and> vm_AttachCurrentThread vm = JNI_OK) \<and>
   (AttachCurrentThread JNI_OK \<in> set (jni_calls (calls_of (IsAndroidAccessibilityEnabled vm g))) \<longleftrightarrow>
      vm_GetEnv vm \<noteq> JNI_OK \<and> vm_AttachCurrentThread vm = JNI_OK) \<and>
   count_list (jni_calls (calls_of (IsAndroidAccessibilityEnabled vm g))) DetachCurrentThread \<le> 1"
  using InitializeJNIMethods_no_thread_calls [where vm=vm and g=g] count_list_Init_detach [of vm g]
  by (auto simp: IsAndroidAccessibilityEnabled_def Let_def jni_calls_append split: prod.splits)

lemma thread_calls_SpeakAndroidText:
  "(DetachCurrentThread \<in> set (jni_calls (calls_of (SpeakAndroidText vm g str force))) \<longleftrightarrow>
      vm_GetEnv vm \<noteq> JNI_OK \<and> vm_AttachCurrentThread vm = JNI_OK) \<and>
   (AttachCurrentThread JNI_OK \<in> set (jni_calls (calls_of (SpeakAndroidText vm g str force))) \<longleftrightarrow>
      vm_GetEnv vm \<noteq> JNI_OK \<and> vm_AttachCurrentThread vm = JNI_OK) \<and>
   count_list (jni_calls (calls_of (SpeakAndroidText vm g str force))) DetachCurrentThread \<le> 1"
  using InitializeJNIMethods_no_thread_calls [where vm=vm and g=g] count_list_Init_detach [of vm g]
  by (auto simp: SpeakAndroidText_def Let_def jni_calls_append split: prod.splits)

lemma thread_calls_StopAndroidSpeech:
  "(DetachCurrentThread \<in> set (jni_calls (calls_of (StopAndroidSpeech vm g))) \<longleftrightarrow>
      vm_GetEnv vm \<noteq> JNI_OK \<and> vm_AttachCurrentThread vm = JNI_OK) \<and>
   (AttachCurrentThread JNI_OK \<in> set (jni_calls (calls_of (StopAndroidSpeech vm g))) \<longleftrightarrow>
      vm_GetEnv vm \<noteq> JNI_OK \<and> vm_AttachCurrentThread vm = JNI_OK) \<and>
   count_list (jni_calls (calls_of (StopAndroidSpeech vm g))) DetachCurrentThread \<le> 1"
  using InitializeJNIMethods_no_thread_calls [where vm=vm and g=g] count_list_Init_detach [of vm g]
  by (auto simp: StopAndroidSpeech_def Let_def jni_calls_append split: prod.splits)

lemma thread_calls_IsAndroidTTSReady:
  "(DetachCurrentThread \<in> set (jni_calls (calls_of (IsAndroidTTSReady vm g))) \<longleftrightarrow>
      vm_GetEnv vm \<noteq> JNI_OK \<and> vm_AttachCurrentThread vm = JNI_OK) \<and>
   (AttachCurrentThread JNI_OK \<in> set (jni_calls (calls_of (IsAndroidTTSReady vm g))) \<longleftrightarrow>
      vm_GetEnv vm \<noteq> JNI_OK \<and> vm_AttachCurrentThread vm = JNI_OK) \<and>
   count_list (jni_calls (calls_of (IsAndroidTTSReady vm g))) DetachCurrentThread \<le> 1"
  using InitializeJNIMethods_no_thread_calls [where vm=vm and g=g] count_list_Init_detach [of vm g]
  by (auto simp: IsAndroidTTSReady_def Let_def jni_calls_append split: prod.splits)

lemma thread_calls_HandleAndroidGesture:
  "(DetachCurrentThread \<in> set (jni_calls (calls_of (HandleAndroidGesture vm g action x y time))) \<longleftrightarrow>
      vm_GetEnv vm \<noteq> JNI_OK \<and> vm_AttachCurrentThread vm = JNI_OK) \<and>
   (AttachCurrentThread JNI_OK \<in> set (jni_calls (calls_of (HandleAndroidGesture vm g action x y time))) \<longleftrightarrow>
      vm_GetEnv vm \<noteq> JNI_OK \<and> vm_AttachCurrentThread vm = JNI_OK) \<and>
   count_list (jni_calls (calls_of (HandleAndroidGesture vm g action x y time))) DetachCurrentThread \<le> 1"
  using InitializeJNIMethods_no_thread_calls [where vm=vm and g=g] count_list_Init_detach [of vm g]
  by (auto simp: HandleAndroidGesture_def Let_def jni_calls_append split: prod.splits)


lemma bridge_run_calls:
  "calls_of (bridge_run vm g Op_IsAndroidAccessibilityEnabled) = calls_of (IsAndroidAccessibilityEnabled vm g)"
  "calls_of (bridge_run vm g (Op_SpeakAndroidText str force)) = calls_of (SpeakAndroidText vm g str force)"
  "calls_of (bridge_run vm g Op_StopAndroidSpeech) = calls_of (StopAndroidSpeech vm g)"
  "calls_of (bridge_run vm g Op_IsAndroidTTSReady) = calls_of (IsAndroidTTSReady vm g)"
  "calls_of (bridge_run vm g (Op_HandleAndroidGesture action x y time)) = calls_of (HandleAndroidGesture vm g action x y time)"
  by (simp_all split: prod.splits)

lemma bridge_run_methods:
  "methods_of (bridge_run vm g Op_IsAndroidAccessibilityEnabled) = methods_of (IsAndroidAccessibilityEnabled vm g)"
  "methods_of (bridge_run vm g (Op_SpeakAndroidText str force)) = methods_of (SpeakAndroidText vm g str force)"
  "methods_of (bridge_run vm g Op_StopAndroidSpeech) = methods_of (StopAndroidSpeech vm g)"
  "methods_of (bridge_run vm g Op_IsAndroidTTSReady) = methods_of (IsAndroidTTSReady vm g)"
  "methods_of (bridge_run vm g (Op_HandleAndroidGesture action x y time)) = methods_of (HandleAndroidGesture vm g action x y time)"
  by (simp_all split: prod.splits)

lemma bridge_run_result:
  "result_of (bridge_run vm g Op_IsAndroidAccessibilityEnabled) = Ret_bool (result_of (IsAndroidAccessibilityEnabled vm g))"
  "result_of (bridge_run vm g (Op_SpeakAndroidText str force)) = Ret_void"
  "result_of (bridge_run vm g Op_StopAndroidSpeech) = Ret_void"
  "result_of (bridge_run vm g Op_IsAndroidTTSReady) = Ret_bool (result_of (IsAndroidTTSReady vm g))"
  "result_of (bridge_run vm g (Op_HandleAndroidGesture action x y time)) = Ret_int (result_of (HandleAndroidGesture vm g action x y time))"
  by (simp_all split: prod.splits)

lemma thread_calls_bridge_run:
  "(DetachCurrentThread \<in> set (jni_calls (calls_of (bridge_run vm g op))) \<longleftrightarrow>
      vm_GetEnv vm \<noteq> JNI_OK \<and> vm_AttachCurrentThread vm = JNI_OK) \<and>
   (AttachCurrentThread JNI_OK \<in> set (jni_calls (calls_of (bridge_run vm g op))) \<longleftrightarrow>
      vm_GetEnv vm \<noteq> JNI_OK \<and> vm_AttachCurrentThread vm = JNI_OK) \<and>
   count_list (jni_calls (calls_of (bridge_run vm g op))) DetachCurrentThread \<le> 1"
proof (cases op)
  case Op_IsAndroidAccessibilityEnabled
  then show ?thesis
    using thread_calls_IsAndroidAccessibilityEnabled [of vm g]
    by (simp only: bridge_run_calls)
next
  case (Op_SpeakAndroidText str force)
  then show ?thesis
    using thread_calls_SpeakAndroidText [of vm g str force]
    by (simp only: bridge_run_calls)
next
  case Op_StopAndroidSpeech
  then show ?thesis
    using thread_calls_StopAndroidSpeech [of vm g]
    by (simp only: bridge_run_calls)
next
  case Op_IsAndroidTTSReady
  then show ?thesis
    using thread_calls_IsAndroidTTSReady [of vm g]
    by (simp only: bridge_run_calls)
next
  case (Op_HandleAndroidGesture action x y time)
  then show ?thesis
    using thread_calls_HandleAndroidGesture [of vm g action x y time]
    by (simp only: bridge_run_calls)
qed

lemma failure_IsAndroidAccessibilityEnabled:
  "attach_fails vm \<or> resolution_fails vm g Op_IsAndroidAccessibilityEnabled \<Longrightarrow>
   result_of (IsAndroidAccessibilityEnabled vm g) = False \<and>
   \<not> list_ex is_managed_call (jni_calls (calls_of (IsAndroidAccessibilityEnabled vm g)))"
  using InitializeJNIMethods_no_managed_call [of vm g]
  by (auto simp: IsAndroidAccessibilityEnabled_def attach_fails_def resolution_fails_def Let_def
      jni_calls_append split: prod.splits)

lemma failure_SpeakAndroidText:
  "attach_fails vm \<or> resolution_fails vm g (Op_SpeakAndroidText str force) \<Longrightarrow>
   \<not> list_ex is_managed_call (jni_calls (calls_of (SpeakAndroidText vm g str force)))"
  using InitializeJNIMethods_no_managed_call [of vm g]
  by (auto simp: SpeakAndroidText_def attach_fails_def resolution_fails_def Let_def
      jni_calls_append split: prod.splits)

lemma failure_StopAndroidSpeech:
  "attach_fails vm \<or> resolution_fails vm g Op_StopAndroidSpeech \<Longrightarrow>
   \<not> list_ex is_managed_call (jni_calls (calls_of (StopAndroidSpeech vm g)))"
  using InitializeJNIMethods_no_managed_call [of vm g]
  by (auto simp: StopAndroidSpeech_def attach_fails_def resolution_fails_def Let_def
      jni_calls_append split: prod.splits)

lemma failure_IsAndroidTTSReady:
  "attach_fails vm \<or> resolution_fails vm g Op_IsAndroidTTSReady \<Longrightarrow>
   result_of (IsAndroidTTSReady vm g) = False \<and>
   \<not> list_ex is_managed_call (jni_calls (calls_of (IsAndroidTTSReady vm g)))"
  using InitializeJNIMethods_no_managed_call [of vm g]
  by (auto simp: IsAndroidTTSReady_def attach_fails_def resolution_fails_def Let_def
      jni_calls_append split: prod.splits)

lemma failure_HandleAndroidGesture:
  "attach_fails vm \<or> resolution_fails vm g (Op_HandleAndroidGesture action x y time) \<Longrightarrow>
   result_of (HandleAndroidGesture vm g action x y time) = 0 \<and>
   \<not> list_ex is_managed_call (jni_calls (calls_of (HandleAndroidGesture vm g action x y time)))"
  using InitializeJNIMethods_no_managed_call [of vm g]
  by (auto simp: HandleAndroidGesture_def attach_fails_def resolution_fails_def Let_def
      jni_calls_append split: prod.splits)

lemma InitializeJNIMethods_stores_lookups:
  "GetStaticMethodID cls ''isScreenReaderEnabled'' sig (Some m) \<in> set (calls_of (InitializeJNIMethods vm g)) \<Longrightarrow>
     g_isScreenReaderEnabled (methods_of (InitializeJNIMethods vm g)) = Some m"
  "GetStaticMethodID cls ''speak'' sig (Some m) \<in> set (calls_of (InitializeJNIMethods vm g)) \<Longrightarrow>
     g_speak (methods_of (InitializeJNIMethods vm g)) = Some m"
  "GetStaticMethodID cls ''stop'' sig (Some m) \<in> set (calls_of (InitializeJNIMethods vm g)) \<Longrightarrow>
     g_stop (methods_of (InitializeJNIMethods vm g)) = Some m"
  "GetStaticMethodID cls ''isReady'' sig (Some m) \<in> set (calls_of (InitializeJNIMethods vm g)) \<Longrightarrow>
     g_isReady (methods_of (InitializeJNIMethods vm g)) = Some m"
  "GetStaticMethodID cls ''handleGesture'' sig (Some m) \<in> set (calls_of (InitializeJNIMethods vm g)) \<Longrightarrow>
     g_handleGesture (methods_of (InitializeJNIMethods vm g)) = Some m"
  by (auto simp: InitializeJNIMethods_def Let_def split: option.splits if_splits)

lemma init_call_IsAndroidAccessibilityEnabled:
  "(list_ex is_init_call (calls_of (IsAndroidAccessibilityEnabled vm g)) \<longleftrightarrow> \<not> attach_fails vm \<and> g_isScreenReaderEnabled g = None) \<and>
   (InitializeJNIMethods_call t True \<in> set (calls_of (IsAndroidAccessibilityEnabled vm g)) \<longrightarrow>
      all_resolved (methods_of (IsAndroidAccessibilityEnabled vm g))) \<and>
   (g_isScreenReaderEnabled g \<noteq> None \<longrightarrow> methods_of (IsAndroidAccessibilityEnabled vm g) = g) \<and>
   (list_ex is_method_lookup (jni_calls (calls_of (IsAndroidAccessibilityEnabled vm g))) \<longrightarrow>
      list_ex is_init_call (calls_of (IsAndroidAccessibilityEnabled vm g)))"
  using InitializeJNIMethods_True_all_resolved [of vm g]
  by (auto simp: IsAndroidAccessibilityEnabled_def attach_fails_def Let_def jni_calls_append split: prod.splits)

lemma init_call_SpeakAndroidText:
  "(list_ex is_init_call (calls_of (SpeakAndroidText vm g str force)) \<longleftrightarrow> \<not> attach_fails vm \<and> g_speak g = None) \<and>
   (InitializeJNIMethods_call t True \<in> set (calls_of (SpeakAndroidText vm g str force)) \<longrightarrow>
      all_resolved (methods_of (SpeakAndroidText vm g str force))) \<and>
   (g_speak g \<noteq> None \<longrightarrow> methods_of (SpeakAndroidText vm g str force) = g) \<and>
   (list_ex is_method_lookup (jni_calls (calls_of (SpeakAndroidText vm g str force))) \<longrightarrow>
      list_ex is_init_call (calls_of (SpeakAndroidText vm g str force)))"
  using InitializeJNIMethods_True_all_resolved [of vm g]
  by (auto simp: SpeakAndroidText_def attach_fails_def Let_def jni_calls_append split: prod.splits)

lemma init_call_StopAndroidSpeech:
  "(list_ex is_init_call (calls_of (StopAndroidSpeech vm g)) \<longleftrightarrow> \<not> attach_fails vm \<and> g_stop g = None) \<and>
   (InitializeJNIMethods_call t True \<in> set (calls_of (StopAndroidSpeech vm g)) \<longrightarrow>
      all_resolved (methods_of (StopAndroidSpeech vm g))) \<and>
   (g_stop g \<noteq> None \<longrightarrow> methods_of (StopAndroidSpeech vm g) = g) \<and>
   (list_ex is_method_lookup (jni_calls (calls_of (StopAndroidSpeech vm g))) \<longrightarrow>
      list_ex is_init_call (calls_of (StopAndroidSpeech vm g)))"
  using InitializeJNIMethods_True_all_resolved [of vm g]
  by (auto simp: StopAndroidSpeech_def attach_fails_def Let_def jni_calls_append split: prod.splits)

lemma init_call_IsAndroidTTSReady:
  "(list_ex is_init_call (calls_of (IsAndroidTTSReady vm g)) \<longleftrightarrow> \<not> attach_fails vm \<and> g_isReady g = None) \<and>
   (InitializeJNIMethods_call t True \<in> set (calls_of (IsAndroidTTSReady vm g)) \<longrightarrow>
      all_resolved (methods_of (IsAndroidTTSReady vm g))) \<and>
   (g_isReady g \<noteq> None \<longrightarrow> methods_of (IsAndroidTTSReady vm g) = g) \<and>
   (list_ex is_method_lookup (jni_calls (calls_of (IsAndroidTTSReady vm g))) \<longrightarrow>
      list_ex is_init_call (calls_of (IsAndroidTTSReady vm g)))"
  using InitializeJNIMethods_True_all_resolved [of vm g]
  by (auto simp: IsAndroidTTSReady_def attach_fails_def Let_def jni_calls_append split: prod.splits)

lemma init_call_HandleAndroidGesture:
  "(list_ex is_init_call (calls_of (HandleAndroidGesture vm g action x y time)) \<longleftrightarrow> \<not> attach_fails vm \<and> g_handleGesture g = None) \<and>
   (InitializeJNIMethods_call t True \<in> set (calls_of (HandleAndroidGesture vm g action x y time)) \<longrightarrow>
      all_resolved (methods_of (HandleAndroidGesture vm g action x y time))) \<and>
   (g_handleGesture g \<noteq> None \<longrightarrow> methods_of (HandleAndroidGesture vm g action x y time) = g) \<and>
   (list_ex is_method_lookup (jni_calls (calls_of (HandleAndroidGesture vm g action x y time))) \<longrightarrow>
      list_ex is_init_call (calls_of (HandleAndroidGesture vm g action x y time)))"
  using InitializeJNIMethods_True_all_resolved [of vm g]
  by (auto simp: HandleAndroidGesture_def attach_fails_def Let_def jni_calls_append split: prod.splits)


lemma init_call_bridge_run:
  "(list_ex is_init_call (calls_of (bridge_run vm g op)) \<longleftrightarrow> \<not> attach_fails vm \<and> guard op g = None) \<and>
   (InitializeJNIMethods_call t True \<in> set (calls_of (bridge_run vm g op)) \<longrightarrow>
      all_resolved (methods_of (bridge_run vm g op))) \<and>
   (guard op g \<noteq> None \<longrightarrow> methods_of (bridge_run vm g op) = g) \<and>
   (list_ex is_method_lookup (jni_calls (calls_of (bridge_run vm g op))) \<longrightarrow>
      list_ex is_init_call (calls_of (bridge_run vm g op)))"
proof (cases op)
  case Op_IsAndroidAccessibilityEnabled
  show ?thesis
    unfolding Op_IsAndroidAccessibilityEnabled bridge_run_calls bridge_run_methods guard.simps
    by (rule init_call_IsAndroidAccessibilityEnabled)
next
  case (Op_SpeakAndroidText str force)
  show ?thesis
    unfolding Op_SpeakAndroidText bridge_run_calls bridge_run_methods guard.simps
    by (rule init_call_SpeakAndroidText)
next
  case Op_StopAndroidSpeech
  show ?thesis
    unfolding Op_StopAndroidSpeech bridge_run_calls bridge_run_methods guard.simps
    by (rule init_call_StopAndroidSpeech)
next
  case Op_IsAndroidTTSReady
  show ?thesis
    unfolding Op_IsAndroidTTSReady bridge_run_calls bridge_run_methods guard.simps
    by (rule init_call_IsAndroidTTSReady)
next
  case (Op_HandleAndroidGesture action x y time)
  show ?thesis
    unfolding Op_HandleAndroidGesture bridge_run_calls bridge_run_methods guard.simps
    by (rule init_call_HandleAndroidGesture)
qed

lemma init_call_only_if_guard_null:
  "list_ex is_init_call (calls_of (bridge_run vm g op)) \<longleftrightarrow> \<not> attach_fails vm \<and> guard op g = None"
  using init_call_bridge_run [of vm g op] by (rule conjunct1)

lemma init_success_all_resolved:
  "InitializeJNIMethods_call t True \<in> set (calls_of (bridge_run vm g op)) \<Longrightarrow>
     all_resolved (methods_of (bridge_run vm g op))"
  using init_call_bridge_run [of vm g op t] by blast

lemma guard_set_keeps_methods:
  "guard op g \<noteq> None \<Longrightarrow> methods_of (bridge_run vm g op) = g"
  using init_call_bridge_run [of vm g op] by blast

lemma method_lookup_only_in_init:
  "list_ex is_method_lookup (jni_calls (calls_of (bridge_run vm g op))) \<Longrightarrow>
     list_ex is_init_call (calls_of (bridge_run vm g op))"
  using init_call_bridge_run [of vm g op] by blast

lemma all_resolved_guard: "all_resolved g \<Longrightarrow> guard op g \<noteq> None"
  by (cases op) (simp_all add: all_resolved_def)

lemma bridge_runs_all_resolved:
  "all_resolved g \<Longrightarrow>
     fst (bridge_runs g cs) = g \<and>
     \<not> list_ex is_init_call (snd (bridge_runs g cs)) \<and>
     \<not> list_ex is_method_lookup (jni_calls (snd (bridge_runs g cs)))"
proof (induction cs)
  case Nil
  then show ?case by simp
next
  case (Cons c cs)
  obtain vm op where c: "c = (vm, op)" by (cases c)
  from Cons.prems have gd: "guard op g \<noteq> None" by (rule all_resolved_guard)
  have same: "methods_of (bridge_run vm g op) = g"
    using gd by (rule guard_set_keeps_methods)
  have none: "\<not> list_ex is_init_call (calls_of (bridge_run vm g op))"
    using gd by (simp add: init_call_only_if_guard_null)
  then have nolook: "\<not> list_ex is_method_lookup (jni_calls (calls_of (bridge_run vm g op)))"
    using method_lookup_only_in_init [of vm g op] by blast
  obtain r t where run: "bridge_run vm g op = (r, g, t)"
    using same by (cases "bridge_run vm g op") auto
  with none nolook have t: "\<not> list_ex is_init_call t" "\<not> list_ex is_method_lookup (jni_calls t)"
    by simp_all
  show ?case
    using Cons.IH [OF Cons.prems] t
    by (auto simp: c run jni_calls_append split: prod.splits)
qed

lemma every_lookup_succeeds_initializes:
  "every_lookup_succeeds vm \<Longrightarrow> fst (InitializeJNIMethods vm g)"
  by (auto simp: InitializeJNIMethods_def every_lookup_succeeds_def class_found_def
      method_found_def Let_def split: option.splits if_splits)

lemma first_use_IsAndroidAccessibilityEnabled:
  "\<not> attach_fails vm \<and> g_isScreenReaderEnabled g = None \<Longrightarrow>
     InitializeJNIMethods_call (calls_of (InitializeJNIMethods vm g)) (fst (InitializeJNIMethods vm g))
       \<in> set (calls_of (IsAndroidAccessibilityEnabled vm g)) \<and>
     methods_of (IsAndroidAccessibilityEnabled vm g) = methods_of (InitializeJNIMethods vm g) \<and>
     (fst (InitializeJNIMethods vm g) \<longrightarrow>
        list_ex is_managed_call (jni_calls (calls_of (IsAndroidAccessibilityEnabled vm g))))"
  by (auto simp: IsAndroidAccessibilityEnabled_def attach_fails_def Let_def jni_calls_append split: prod.splits)

lemma init_at_most_once_IsAndroidAccessibilityEnabled:
  "length (filter is_init_call (calls_of (IsAndroidAccessibilityEnabled vm g))) \<le> 1"
  by (auto simp: IsAndroidAccessibilityEnabled_def Let_def split: prod.splits)

lemma first_use_SpeakAndroidText:
  "\<not> attach_fails vm \<and> g_speak g = None \<Longrightarrow>
     InitializeJNIMethods_call (calls_of (InitializeJNIMethods vm g)) (fst (InitializeJNIMethods vm g))
       \<in> set (calls_of (SpeakAndroidText vm g str force)) \<and>
     methods_of (SpeakAndroidText vm g str force) = methods_of (InitializeJNIMethods vm g) \<and>
     (fst (InitializeJNIMethods vm g) \<longrightarrow>
        list_ex is_managed_call (jni_calls (calls_of (SpeakAndroidText vm g str force))))"
  by (auto simp: SpeakAndroidText_def attach_fails_def Let_def jni_calls_append split: prod.splits)

lemma init_at_most_once_SpeakAndroidText:
  "length (filter is_init_call (calls_of (SpeakAndroidText vm g str force))) \<le> 1"
  by (auto simp: SpeakAndroidText_def Let_def split: prod.splits)

lemma first_use_StopAndroidSpeech:
  "\<not> attach_fails vm \<and> g_stop g = None \<Longrightarrow>
     InitializeJNIMethods_call (calls_of (InitializeJNIMethods vm g)) (fst (InitializeJNIMethods vm g))
       \<in> set (calls_of (StopAndroidSpeech vm g)) \<and>
     methods_of (StopAndroidSpeech vm g) = methods_of (InitializeJNIMethods vm g) \<and>
     (fst (InitializeJNIMethods vm g) \<longrightarrow>
        list_ex is_managed_call (jni_calls (calls_of (StopAndroidSpeech vm g))))"
  by (auto simp: StopAndroidSpeech_def attach_fails_def Let_def jni_calls_append split: prod.splits)

lemma init_at_most_once_StopAndroidSpeech:
  "length (filter is_init_call (calls_of (StopAndroidSpeech vm g))) \<le> 1"
  by (auto simp: StopAndroidSpeech_def Let_def split: prod.splits)

lemma first_use_IsAndroidTTSReady:
  "\<not> attach_fails vm \<and> g_isReady g = None \<Longrightarrow>
     InitializeJNIMethods_call (calls_of (InitializeJNIMethods vm g)) (fst (InitializeJNIMethods vm g))
       \<in> set (calls_of (IsAndroidTTSReady vm g)) \<and>
     methods_of (IsAndroidTTSReady vm g) = methods_of (InitializeJNIMethods vm g) \<and>
     (fst (InitializeJNIMethods vm g) \<longrightarrow>
        list_ex is_managed_call (jni_calls (calls_of (IsAndroidTTSReady vm g))))"
  by (auto simp: IsAndroidTTSReady_def attach_fails_def Let_def jni_calls_append split: prod.splits)

lemma init_at_most_once_IsAndroidTTSReady:
  "length (filter is_init_call (calls_of (IsAndroidTTSReady vm g))) \<le> 1"
  by (auto simp: IsAndroidTTSReady_def Let_def split: prod.splits)

lemma first_use_HandleAndroidGesture:
  "\<not> attach_fails vm \<and> g_handleGesture g = None \<Longrightarrow>
     InitializeJNIMethods_call (calls_of (InitializeJNIMethods vm g)) (fst (InitializeJNIMethods vm g))
       \<in> set (calls_of (HandleAndroidGesture vm g action x y time)) \<and>
     methods_of (HandleAndroidGesture vm g action x y time) = methods_of (InitializeJNIMethods vm g) \<and>
     (fst (InitializeJNIMethods vm g) \<longrightarrow>
        list_ex is_managed_call (jni_calls (calls_of (HandleAndroidGesture vm g action x y time))))"
  by (auto simp: HandleAndroidGesture_def attach_fails_def Let_def jni_calls_append split: prod.splits)

lemma init_at_most_once_HandleAndroidGesture:
  "length (filter is_init_call (calls_of (HandleAndroidGesture vm g action x y time))) \<le> 1"
  by (auto simp: HandleAndroidGesture_def Let_def split: prod.splits)

lemma first_use_bridge_run:
  "\<not> attach_fails vm \<and> guard op g = None \<Longrightarrow>
     InitializeJNIMethods_call (calls_of (InitializeJNIMethods vm g)) (fst (InitializeJNIMethods vm g))
       \<in> set (calls_of (bridge_run vm g op)) \<and>
     methods_of (bridge_run vm g op) = methods_of (InitializeJNIMethods vm g) \<and>
     (fst (InitializeJNIMethods vm g) \<longrightarrow>
        list_ex is_managed_call (jni_calls (calls_of (bridge_run vm g op))))"
proof (cases op)
  case Op_IsAndroidAccessibilityEnabled
  show "\<not> attach_fails vm \<and> guard op g = None \<Longrightarrow> ?thesis"
    unfolding Op_IsAndroidAccessibilityEnabled bridge_run_calls bridge_run_methods guard.simps
    by (rule first_use_IsAndroidAccessibilityEnabled)
next
  case (Op_SpeakAndroidText str force)
  show "\<not> attach_fails vm \<and> guard op g = None \<Longrightarrow> ?thesis"
    unfolding Op_SpeakAndroidText bridge_run_calls bridge_run_methods guard.simps
    by (rule first_use_SpeakAndroidText)
next
  case Op_StopAndroidSpeech
  show "\<not> attach_fails vm \<and> guard op g = None \<Longrightarrow> ?thesis"
    unfolding Op_StopAndroidSpeech bridge_run_calls bridge_run_methods guard.simps
    by (rule first_use_StopAndroidSpeech)
next
  case Op_IsAndroidTTSReady
  show "\<not> attach_fails vm \<and> guard op g = None \<Longrightarrow> ?thesis"
    unfolding Op_IsAndroidTTSReady bridge_run_calls bridge_run_methods guard.simps
    by (rule first_use_IsAndroidTTSReady)
next
  case (Op_HandleAndroidGesture action x y time)
  show "\<not> attach_fails vm \<and> guard op g = None \<Longrightarrow> ?thesis"
    unfolding Op_HandleAndroidGesture bridge_run_calls bridge_run_methods guard.simps
    by (rule first_use_HandleAndroidGesture)
qed

lemma init_at_most_once_bridge_run:
  "length (filter is_init_call (calls_of (bridge_run vm g op))) \<le> 1"
proof (cases op)
  case Op_IsAndroidAccessibilityEnabled
  show ?thesis
    unfolding Op_IsAndroidAccessibilityEnabled bridge_run_calls
    by (rule init_at_most_once_IsAndroidAccessibilityEnabled)
next
  case (Op_SpeakAndroidText str force)
  show ?thesis
    unfolding Op_SpeakAndroidText bridge_run_calls
    by (rule init_at_most_once_SpeakAndroidText)
next
  case Op_StopAndroidSpeech
  show ?thesis
    unfolding Op_StopAndroidSpeech bridge_run_calls
    by (rule init_at_most_once_StopAndroidSpeech)
next
  case Op_IsAndroidTTSReady
  show ?thesis
    unfolding Op_IsAndroidTTSReady bridge_run_calls
    by (rule init_at_most_once_IsAndroidTTSReady)
next
  case (Op_HandleAndroidGesture action x y time)
  show ?thesis
    unfolding Op_HandleAndroidGesture bridge_run_calls
    by (rule init_at_most_once_HandleAndroidGesture)
qed

lemmas vm_defs = vm_attached_def vm_detached_def vm_no_attach_def vm_no_gesture_def
  JNI_OK_def AccessibilityManager_class_def AndroidTextToSpeech_class_def GestureDetector_class_def

subsection \<open>Attaching and detaching the thread\<close>

text \<open>
  C3. For each of the five bridge operations, whatever the machine answers and whatever
  is cached, so on every exit path: the calls of the operation (those of
  \<^verbatim>\<open>InitializeJNIMethods\<close> included) contain \<^verbatim>\<open>DetachCurrentThread\<close> if and only if
  they contain an \<^verbatim>\<open>AttachCurrentThread\<close> that returned \<^verbatim>\<open>JNI_OK\<close>, that is, this
  call attached the thread; it detaches at most once; when \<^verbatim>\<open>GetEnv\<close> returns
  \<^verbatim>\<open>JNI_OK\<close> (the thread was already attached) it never detaches; and when the attach
  fails there is nothing to detach and it does not.
\<close>

theorem detach_iff_this_call_attached:
  "(DetachCurrentThread \<in> set (jni_calls (calls_of (bridge_run vm g op))) \<longleftrightarrow>
      AttachCurrentThread JNI_OK \<in> set (jni_calls (calls_of (bridge_run vm g op)))) \<and>
   count_list (jni_calls (calls_of (bridge_run vm g op))) DetachCurrentThread \<le> 1 \<and>
   (vm_GetEnv vm = JNI_OK \<longrightarrow>
      DetachCurrentThread \<notin> set (jni_calls (calls_of (bridge_run vm g op)))) \<and>
   (attach_fails vm \<longrightarrow>
      DetachCurrentThread \<notin> set (jni_calls (calls_of (bridge_run vm g op))))"
  using thread_calls_bridge_run [of vm g op] by (simp add: attach_fails_def)

text \<open>
  \<^verbatim>\<open>StopAndroidSpeech\<close> as the first operation of a process, on a thread that is attached,
  on one that is not, and on one that cannot be attached.
\<close>

theorem detach_iff_this_call_attached_witness:
  "vm_GetEnv vm_attached = JNI_OK \<and>
   jni_calls (calls_of (bridge_run vm_attached jni_methods_init Op_StopAndroidSpeech)) =
     [GetEnv 0,
      FindClass AccessibilityManager_class (Some 1),
      GetStaticMethodID 1 ''isScreenReaderEnabled'' ''()Z'' (Some 31),
      FindClass AndroidTextToSpeech_class (Some 2),
      GetStaticMethodID 2 ''speak'' ''(Ljava/lang/String;Z)V'' (Some 25),
      GetStaticMethodID 2 ''stop'' ''()V'' (Some 24),
      GetStaticMethodID 2 ''isReady'' ''()Z'' (Some 27),
      FindClass GestureDetector_class (Some 3),
      GetStaticMethodID 3 ''handleGesture'' ''(IFFJ)I'' (Some 43),
      FindClass AndroidTextToSpeech_class (Some 2),
      CallStaticVoidMethod (Some 2) (Some 24) []] \<and>
   DetachCurrentThread \<notin> set (jni_calls (calls_of (bridge_run vm_attached jni_methods_init Op_StopAndroidSpeech))) \<and>
   last (jni_calls (calls_of (bridge_run vm_detached jni_methods_init Op_StopAndroidSpeech))) = DetachCurrentThread \<and>
   AttachCurrentThread JNI_OK \<in> set (jni_calls (calls_of (bridge_run vm_detached jni_methods_init Op_StopAndroidSpeech))) \<and>
   attach_fails vm_no_attach \<and>
   jni_calls (calls_of (bridge_run vm_no_attach jni_methods_init Op_StopAndroidSpeech)) =
     [GetEnv (- 2), AttachCurrentThread (- 1)]"
  using detach_iff_this_call_attached [of vm_attached jni_methods_init Op_StopAndroidSpeech]
    detach_iff_this_call_attached [of vm_detached jni_methods_init Op_StopAndroidSpeech]
    detach_iff_this_call_attached [of vm_no_attach jni_methods_init Op_StopAndroidSpeech]
  by (simp add: vm_defs attach_fails_def StopAndroidSpeech_def InitializeJNIMethods_def
      jni_methods_init_def Let_def)

subsection \<open>Resolving the method references\<close>

text \<open>
  C6. \<^verbatim>\<open>InitializeJNIMethods\<close> returns true exactly when the machine finds the three
  classes and, in them, the five methods with their fixed names and signatures: if any
  of the eight lookups fails it returns false, whatever was cached before.
\<close>

theorem InitializeJNIMethods_true_iff_every_lookup_succeeds:
  "fst (InitializeJNIMethods vm g) \<longleftrightarrow> every_lookup_succeeds vm"
  by (auto simp: InitializeJNIMethods_def every_lookup_succeeds_def class_found_def
      method_found_def Let_def split: option.splits if_splits)

subsection \<open>Failures of the bridge\<close>

text \<open>
  The two failures the operations test for. If the thread cannot be attached, or if the
  operation finds its reference unresolved and \<^verbatim>\<open>InitializeJNIMethods\<close> returns false,
  the operation returns its default (false for \<^verbatim>\<open>IsAndroidAccessibilityEnabled\<close> and
  \<^verbatim>\<open>IsAndroidTTSReady\<close>, 0 for \<^verbatim>\<open>HandleAndroidGesture\<close>, nothing for the two
  \<^verbatim>\<open>void\<close> operations) and has called no managed method. The operations are total
  functions into their plain return types: there is no error value to hand on.
\<close>

lemma checked_failures_return_default:
  assumes "attach_fails vm \<or> resolution_fails vm g op"
  shows "result_of (bridge_run vm g op) = default_result op \<and>
         \<not> list_ex is_managed_call (jni_calls (calls_of (bridge_run vm g op)))"
proof (cases op)
  case Op_IsAndroidAccessibilityEnabled
  then show ?thesis
    using assms failure_IsAndroidAccessibilityEnabled [of vm g]
    by (simp add: bridge_run_calls bridge_run_result del: bridge_run.simps)
next
  case (Op_SpeakAndroidText str force)
  then show ?thesis
    using assms failure_SpeakAndroidText [of vm g str force]
    by (simp add: bridge_run_calls bridge_run_result del: bridge_run.simps)
next
  case Op_StopAndroidSpeech
  then show ?thesis
    using assms failure_StopAndroidSpeech [of vm g]
    by (simp add: bridge_run_calls bridge_run_result del: bridge_run.simps)
next
  case Op_IsAndroidTTSReady
  then show ?thesis
    using assms failure_IsAndroidTTSReady [of vm g]
    by (simp add: bridge_run_calls bridge_run_result del: bridge_run.simps)
next
  case (Op_HandleAndroidGesture action x y time)
  then show ?thesis
    using assms failure_HandleAndroidGesture [of vm g action x y time]
    by (simp add: bridge_run_calls bridge_run_result del: bridge_run.simps)
qed

text \<open>
  \<^verbatim>\<open>IsAndroidTTSReady\<close> on a thread that cannot be attached, and
  \<^verbatim>\<open>HandleAndroidGesture\<close> on a machine without the \<^verbatim>\<open>GestureDetector\<close> class.
\<close>

lemma checked_failures_return_default_example:
  "attach_fails vm_no_attach \<and>
   resolution_fails vm_no_gesture jni_methods_init (Op_HandleAndroidGesture 2 0 0 0) \<and>
   result_of (bridge_run vm_no_attach jni_methods_init Op_IsAndroidTTSReady) = Ret_bool False \<and>
   result_of (bridge_run vm_no_gesture jni_methods_init (Op_HandleAndroidGesture 2 0 0 0)) = Ret_int 0 \<and>
   \<not> list_ex is_managed_call (jni_calls (calls_of (bridge_run vm_no_attach jni_methods_init Op_IsAndroidTTSReady))) \<and>
   \<not> list_ex is_managed_call (jni_calls (calls_of (bridge_run vm_no_gesture jni_methods_init (Op_HandleAndroidGesture 2 0 0 0))))"
proof -
  have a: "attach_fails vm_no_attach"
    by (simp add: attach_fails_def vm_defs)
  have r: "resolution_fails vm_no_gesture jni_methods_init (Op_HandleAndroidGesture 2 0 0 0)"
    by (simp add: resolution_fails_def attach_fails_def vm_defs jni_methods_init_def
        InitializeJNIMethods_def Let_def)
  show ?thesis
    using a r
      checked_failures_return_default [of vm_no_attach jni_methods_init Op_IsAndroidTTSReady]
      checked_failures_return_default [of vm_no_gesture jni_methods_init "Op_HandleAndroidGesture 2 0 0 0"]
    by simp
qed

text \<open>
  C4. The claim promises the default whenever a class lookup fails. Each operation looks
  its class up once more at the call itself (\<^verbatim>\<open>env->FindClass(...)\<close> as the first argument
  of \<^verbatim>\<open>CallStatic...Method\<close>), and that result is not tested, unlike the three lookups in
  \<^verbatim>\<open>InitializeJNIMethods\<close>. With the references cached by an earlier call and a thread
  on which the class is not found, neither tested failure occurs: the operation makes
  the managed call on a null class and returns what that call answers.
  \<^verbatim>\<open>IsAndroidTTSReady\<close> returns true where the default is false,
  \<^verbatim>\<open>HandleAndroidGesture\<close> returns 3 where the default is 0, and
  \<^verbatim>\<open>SpeakAndroidText\<close> performs the managed call.
\<close>

theorem call_site_FindClass_is_not_checked:
  "\<not> attach_fails vm_native_thread \<and>
   \<not> class_found vm_native_thread AndroidTextToSpeech_class \<and>
   bridge_run vm_native_thread methods_resolved Op_IsAndroidTTSReady =
     (Ret_bool True, methods_resolved,
      [JNI (GetEnv (- 2)), JNI (AttachCurrentThread 0),
       JNI (FindClass AndroidTextToSpeech_class None),
       JNI (CallStaticBooleanMethod None (Some 27) [] 1),
       JNI DetachCurrentThread]) \<and>
   default_result Op_IsAndroidTTSReady = Ret_bool False \<and>
   result_of (bridge_run vm_native_thread methods_resolved (Op_HandleAndroidGesture 1 0 0 0)) =
     Ret_int GESTURE_DOUBLE_TAP \<and>
   list_ex is_managed_call
     (jni_calls (calls_of (bridge_run vm_native_thread methods_resolved (Op_SpeakAndroidText ''Griswold'' True))))"
  by (simp add: IsAndroidTTSReady_def HandleAndroidGesture_def SpeakAndroidText_def
      vm_native_thread_def vm_defs attach_fails_def class_found_def methods_resolved_def
      JNI_TRUE_def GESTURE_DOUBLE_TAP_def c_str_def Let_def)

subsection \<open>Lazy resolution, once\<close>

text \<open>
  C5. The references are resolved on first use and only then. A bridge operation runs
  \<^verbatim>\<open>InitializeJNIMethods\<close> exactly when the thread is attached or can be and the reference
  the operation tests is still null, and it runs it at most once. When it does, it
  runs it on the references as they are and keeps what it leaves; if the machine finds
  every class and method, all five references are then resolved and the operation goes
  on to its managed call. And once an operation has run \<^verbatim>\<open>InitializeJNIMethods\<close> with
  result true, no later operation, in any order, on any thread and whatever the machine
  answers, runs it again or looks a method up again.
\<close>

theorem methods_resolved_on_first_use_and_once:
  "(list_ex is_init_call (calls_of (bridge_run vm g op)) \<longleftrightarrow>
      \<not> attach_fails vm \<and> guard op g = None) \<and>
   length (filter is_init_call (calls_of (bridge_run vm g op))) \<le> 1 \<and>
   (\<not> attach_fails vm \<and> guard op g = None \<longrightarrow>
      InitializeJNIMethods_call (calls_of (InitializeJNIMethods vm g)) (fst (InitializeJNIMethods vm g))
        \<in> set (calls_of (bridge_run vm g op)) \<and>
      methods_of (bridge_run vm g op) = methods_of (InitializeJNIMethods vm g)) \<and>
   (\<not> attach_fails vm \<and> guard op g = None \<and> every_lookup_succeeds vm \<longrightarrow>
      all_resolved (methods_of (bridge_run vm g op)) \<and>
      list_ex is_managed_call (jni_calls (calls_of (bridge_run vm g op)))) \<and>
   (InitializeJNIMethods_call t True \<in> set (calls_of (bridge_run vm g op)) \<longrightarrow>
      \<not> list_ex is_init_call (snd (bridge_runs (methods_of (bridge_run vm g op)) later)) \<and>
      \<not> list_ex is_method_lookup (jni_calls (snd (bridge_runs (methods_of (bridge_run vm g op)) later))))"
proof (intro conjI impI)
  show "list_ex is_init_call (calls_of (bridge_run vm g op)) \<longleftrightarrow>
      \<not> attach_fails vm \<and> guard op g = None"
    by (rule init_call_only_if_guard_null)
  show "length (filter is_init_call (calls_of (bridge_run vm g op))) \<le> 1"
    by (rule init_at_most_once_bridge_run)
next
  assume first: "\<not> attach_fails vm \<and> guard op g = None"
  show "InitializeJNIMethods_call (calls_of (InitializeJNIMethods vm g)) (fst (InitializeJNIMethods vm g))
        \<in> set (calls_of (bridge_run vm g op))"
    using first_use_bridge_run [OF first] by (rule conjunct1)
  show "methods_of (bridge_run vm g op) = methods_of (InitializeJNIMethods vm g)"
    using first_use_bridge_run [OF first] by simp
next
  assume all: "\<not> attach_fails vm \<and> guard op g = None \<and> every_lookup_succeeds vm"
  then have first: "\<not> attach_fails vm \<and> guard op g = None" by simp
  from all have ok: "fst (InitializeJNIMethods vm g)"
    by (simp add: every_lookup_succeeds_initializes)
  show "all_resolved (methods_of (bridge_run vm g op))"
    using first_use_bridge_run [OF first] InitializeJNIMethods_True_all_resolved [OF ok] by simp
  show "list_ex is_managed_call (jni_calls (calls_of (bridge_run vm g op)))"
    using first_use_bridge_run [OF first] ok by simp
next
  assume ran: "InitializeJNIMethods_call t True \<in> set (calls_of (bridge_run vm g op))"
  then have "all_resolved (methods_of (bridge_run vm g op))"
    by (rule init_success_all_resolved)
  then show "\<not> list_ex is_init_call (snd (bridge_runs (methods_of (bridge_run vm g op)) later))"
    and "\<not> list_ex is_method_lookup (jni_calls (snd (bridge_runs (methods_of (bridge_run vm g op)) later)))"
    using bridge_runs_all_resolved [of "methods_of (bridge_run vm g op)" later] by simp_all
qed

text \<open>The two initialisations used in the examples below.\<close>

lemma InitializeJNIMethods_vm_attached:
  "InitializeJNIMethods vm_attached jni_methods_init = (True, methods_resolved, lookups_complete)"
  by (simp add: InitializeJNIMethods_def vm_defs jni_methods_init_def methods_resolved_def
      lookups_complete_def Let_def)

lemma InitializeJNIMethods_vm_no_gesture:
  "InitializeJNIMethods vm_no_gesture jni_methods_init =
     (False, methods_partial,
      butlast (butlast lookups_complete) @ [FindClass GestureDetector_class None])"
  by (simp add: InitializeJNIMethods_def vm_defs jni_methods_init_def methods_resolved_def
      methods_partial_def lookups_complete_def Let_def)

lemma every_lookup_succeeds_vm_attached: "every_lookup_succeeds vm_attached"
  by (simp add: every_lookup_succeeds_def class_found_def method_found_def vm_defs)

lemma every_lookup_succeeds_vm_detached: "every_lookup_succeeds vm_detached"
  by (simp add: every_lookup_succeeds_def class_found_def method_found_def vm_defs)

text \<open>
  Each of the five operations, as the first operation of a process, resolves all five
  references, on an attached thread and on one the call attaches; three later
  operations, on other threads and machines, resolve nothing.
\<close>

theorem methods_resolved_on_first_use_and_once_witness:
  "\<not> attach_fails vm_attached \<and> \<not> attach_fails vm_detached \<and>
   every_lookup_succeeds vm_attached \<and> every_lookup_succeeds vm_detached \<and>
   methods_of (bridge_run vm_attached jni_methods_init Op_IsAndroidAccessibilityEnabled) = methods_resolved \<and>
   methods_of (bridge_run vm_detached jni_methods_init (Op_SpeakAndroidText ''Griswold'' False)) = methods_resolved \<and>
   methods_of (bridge_run vm_attached jni_methods_init Op_StopAndroidSpeech) = methods_resolved \<and>
   methods_of (bridge_run vm_attached jni_methods_init Op_IsAndroidTTSReady) = methods_resolved \<and>
   methods_of (bridge_run vm_detached jni_methods_init (Op_HandleAndroidGesture 1 0 0 0)) = methods_resolved \<and>
   all_resolved methods_resolved \<and>
   InitializeJNIMethods_call lookups_complete True
     \<in> set (calls_of (bridge_run vm_attached jni_methods_init Op_IsAndroidTTSReady)) \<and>
   list_ex is_init_call (calls_of (bridge_run vm_attached jni_methods_init Op_IsAndroidTTSReady)) \<and>
   \<not> list_ex is_init_call (snd (bridge_runs methods_resolved
      [(vm_detached, Op_SpeakAndroidText ''Griswold'' True),
       (vm_attached, Op_HandleAndroidGesture 1 0 0 0),
       (vm_no_gesture, Op_StopAndroidSpeech)])) \<and>
   \<not> list_ex is_method_lookup (jni_calls (snd (bridge_runs methods_resolved
      [(vm_detached, Op_SpeakAndroidText ''Griswold'' True),
       (vm_attached, Op_HandleAndroidGesture 1 0 0 0),
       (vm_no_gesture, Op_StopAndroidSpeech)])))"
proof -
  have a: "\<not> attach_fails vm_attached" "\<not> attach_fails vm_detached"
    by (simp_all add: attach_fails_def vm_defs)
  have g: "guard op jni_methods_init = None" for op
    by (cases op) (simp_all add: jni_methods_init_def)
  have d: "InitializeJNIMethods vm_detached jni_methods_init = (True, methods_resolved, lookups_complete)"
    by (simp add: InitializeJNIMethods_def vm_defs jni_methods_init_def methods_resolved_def
        lookups_complete_def Let_def)
  note e = every_lookup_succeeds_vm_attached every_lookup_succeeds_vm_detached
  have r: "all_resolved methods_resolved"
    by (simp add: all_resolved_def methods_resolved_def)
  note later = methods_resolved_on_first_use_and_once
      [where later = "[(vm_detached, Op_SpeakAndroidText ''Griswold'' True),
            (vm_attached, Op_HandleAndroidGesture 1 0 0 0),
            (vm_no_gesture, Op_StopAndroidSpeech)]" and t = lookups_complete]
  show ?thesis
    using a e g r
      later [of vm_attached jni_methods_init Op_IsAndroidAccessibilityEnabled]
      later [of vm_detached jni_methods_init "Op_SpeakAndroidText ''Griswold'' False"]
      later [of vm_attached jni_methods_init Op_StopAndroidSpeech]
      later [of vm_attached jni_methods_init Op_IsAndroidTTSReady]
      later [of vm_detached jni_methods_init "Op_HandleAndroidGesture 1 0 0 0"]
    by (clarsimp simp add: InitializeJNIMethods_vm_attached d simp del: bridge_run.simps bridge_runs.simps)
qed

subsection \<open>An initialisation that fails is not undone\<close>

text \<open>
  C9. When \<^verbatim>\<open>InitializeJNIMethods\<close> returns true, all five cached references are
  non-null. Whatever it returns, every method lookup it made that gave a non-null
  reference has been stored in the corresponding global: a run that returns false keeps
  what it resolved before the lookup that failed. And an operation whose own reference
  is set does not run \<^verbatim>\<open>InitializeJNIMethods\<close> and leaves all references as they are,
  whether or not the other references are resolved.
\<close>

theorem partial_initialization_is_kept:
  "(fst (InitializeJNIMethods vm g) \<longrightarrow> all_resolved (methods_of (InitializeJNIMethods vm g))) \<and>
   (GetStaticMethodID cls ''isScreenReaderEnabled'' sig (Some m) \<in> set (calls_of (InitializeJNIMethods vm g)) \<longrightarrow>
      g_isScreenReaderEnabled (methods_of (InitializeJNIMethods vm g)) = Some m) \<and>
   (GetStaticMethodID cls ''speak'' sig (Some m) \<in> set (calls_of (InitializeJNIMethods vm g)) \<longrightarrow>
      g_speak (methods_of (InitializeJNIMethods vm g)) = Some m) \<and>
   (GetStaticMethodID cls ''stop'' sig (Some m) \<in> set (calls_of (InitializeJNIMethods vm g)) \<longrightarrow>
      g_stop (methods_of (InitializeJNIMethods vm g)) = Some m) \<and>
   (GetStaticMethodID cls ''isReady'' sig (Some m) \<in> set (calls_of (InitializeJNIMethods vm g)) \<longrightarrow>
      g_isReady (methods_of (InitializeJNIMethods vm g)) = Some m) \<and>
   (GetStaticMethodID cls ''handleGesture'' sig (Some m) \<in> set (calls_of (InitializeJNIMethods vm g)) \<longrightarrow>
      g_handleGesture (methods_of (InitializeJNIMethods vm g)) = Some m) \<and>
   (guard op g' \<noteq> None \<longrightarrow>
      \<not> list_ex is_init_call (calls_of (bridge_run vm' g' op)) \<and>
      methods_of (bridge_run vm' g' op) = g')"
proof (intro conjI impI)
  assume "fst (InitializeJNIMethods vm g)"
  then show "all_resolved (methods_of (InitializeJNIMethods vm g))"
    by (rule InitializeJNIMethods_True_all_resolved)
next
  assume "guard op g' \<noteq> None"
  then show "\<not> list_ex is_init_call (calls_of (bridge_run vm' g' op))"
    by (simp add: init_call_only_if_guard_null)
next
  assume "guard op g' \<noteq> None"
  then show "methods_of (bridge_run vm' g' op) = g'"
    by (rule guard_set_keeps_methods)
qed (erule InitializeJNIMethods_stores_lookups)+

text \<open>
  Without the \<^verbatim>\<open>GestureDetector\<close> class the initialisation returns false and leaves
  four references set and \<^verbatim>\<open>g_handleGesture\<close> null; \<^verbatim>\<open>IsAndroidAccessibilityEnabled\<close>
  then makes its managed call without initialising, and \<^verbatim>\<open>g_handleGesture\<close> stays null.
\<close>

theorem partial_initialization_is_kept_witness:
  "fst (InitializeJNIMethods vm_attached jni_methods_init) \<and>
   all_resolved (methods_of (InitializeJNIMethods vm_attached jni_methods_init)) \<and>
   \<not> fst (InitializeJNIMethods vm_no_gesture jni_methods_init) \<and>
   GetStaticMethodID 1 ''isScreenReaderEnabled'' ''()Z'' (Some 31)
     \<in> set (calls_of (InitializeJNIMethods vm_no_gesture jni_methods_init)) \<and>
   methods_of (InitializeJNIMethods vm_no_gesture jni_methods_init) = methods_partial \<and>
   g_isScreenReaderEnabled methods_partial = Some 31 \<and>
   g_handleGesture methods_partial = None \<and>
   \<not> list_ex is_init_call (calls_of (bridge_run vm_no_gesture methods_partial Op_IsAndroidAccessibilityEnabled)) \<and>
   bridge_run vm_no_gesture methods_partial Op_IsAndroidAccessibilityEnabled =
     (Ret_bool True, methods_partial,
      [JNI (GetEnv 0), JNI (FindClass AccessibilityManager_class (Some 1)),
       JNI (CallStaticBooleanMethod (Some 1) (Some 31) [] 1)])"
proof -
  have g: "g_isScreenReaderEnabled methods_partial = Some 31" "g_handleGesture methods_partial = None"
    by (simp_all add: methods_partial_def methods_resolved_def)
  have run: "bridge_run vm_no_gesture methods_partial Op_IsAndroidAccessibilityEnabled =
     (Ret_bool True, methods_partial,
      [JNI (GetEnv 0), JNI (FindClass AccessibilityManager_class (Some 1)),
       JNI (CallStaticBooleanMethod (Some 1) (Some 31) [] 1)])"
    by (simp add: IsAndroidAccessibilityEnabled_def g Let_def)
       (simp add: vm_defs JNI_TRUE_def)
  show ?thesis
    using partial_initialization_is_kept
        [of vm_attached jni_methods_init 1 "''()Z''" 31 Op_IsAndroidAccessibilityEnabled methods_partial vm_no_gesture]
      partial_initialization_is_kept
        [of vm_no_gesture jni_methods_init 1 "''()Z''" 31 Op_IsAndroidAccessibilityEnabled methods_partial vm_no_gesture]
    by (simp add: InitializeJNIMethods_vm_attached InitializeJNIMethods_vm_no_gesture g run
        lookups_complete_def del: bridge_run.simps)
qed

subsection \<open>The return value of \<^verbatim>\<open>HandleAndroidGesture\<close>\<close>

text \<open>
  C10. \<^verbatim>\<open>HandleAndroidGesture\<close> returns 0, which is \<^verbatim>\<open>GESTURE_NONE\<close>, on both failure
  paths (the thread cannot be attached; the reference is unresolved and
  \<^verbatim>\<open>InitializeJNIMethods\<close> returns false), without a managed call. It returns the same
  value when nothing fails and the managed \<^verbatim>\<open>handleGesture\<close> answers 0. The caller gets
  only this value, so it cannot tell the two apart.
\<close>

theorem gesture_failure_is_GESTURE_NONE:
  "(attach_fails vm \<or> resolution_fails vm g (Op_HandleAndroidGesture action x y time) \<longrightarrow>
      result_of (HandleAndroidGesture vm g action x y time) = GESTURE_NONE \<and>
      \<not> list_ex is_managed_call (jni_calls (calls_of (HandleAndroidGesture vm g action x y time)))) \<and>
   (\<not> attach_fails vm \<and> \<not> resolution_fails vm g (Op_HandleAndroidGesture action x y time) \<and>
    env_CallStaticIntMethod vm (env_FindClass vm GestureDetector_class)
      (g_handleGesture (methods_of (HandleAndroidGesture vm g action x y time)))
      [JInt action, JFloat x, JFloat y, JLong time] = 0 \<longrightarrow>
      result_of (HandleAndroidGesture vm g action x y time) = GESTURE_NONE \<and>
      list_ex is_managed_call (jni_calls (calls_of (HandleAndroidGesture vm g action x y time))))"
proof (intro conjI impI)
  assume "attach_fails vm \<or> resolution_fails vm g (Op_HandleAndroidGesture action x y time)"
  then show "result_of (HandleAndroidGesture vm g action x y time) = GESTURE_NONE"
    using failure_HandleAndroidGesture [of vm g action x y time] by (simp add: GESTURE_NONE_def)
next
  assume "attach_fails vm \<or> resolution_fails vm g (Op_HandleAndroidGesture action x y time)"
  then show "\<not> list_ex is_managed_call (jni_calls (calls_of (HandleAndroidGesture vm g action x y time)))"
    using failure_HandleAndroidGesture [of vm g action x y time] by simp
next
  assume ok: "\<not> attach_fails vm \<and> \<not> resolution_fails vm g (Op_HandleAndroidGesture action x y time) \<and>
    env_CallStaticIntMethod vm (env_FindClass vm GestureDetector_class)
      (g_handleGesture (methods_of (HandleAndroidGesture vm g action x y time)))
      [JInt action, JFloat x, JFloat y, JLong time] = 0"
  then show "result_of (HandleAndroidGesture vm g action x y time) = GESTURE_NONE"
    by (auto simp: HandleAndroidGesture_def attach_fails_def resolution_fails_def GESTURE_NONE_def
        Let_def split: prod.splits if_splits)
  from ok show "list_ex is_managed_call (jni_calls (calls_of (HandleAndroidGesture vm g action x y time)))"
    by (auto simp: HandleAndroidGesture_def attach_fails_def resolution_fails_def Let_def
        jni_calls_append split: prod.splits if_splits)
qed

text \<open>
  The same arguments on a thread that cannot be attached and on one that is attached,
  with a detector that reports no gesture: both calls return \<^verbatim>\<open>GESTURE_NONE\<close>.
\<close>

theorem gesture_failure_is_GESTURE_NONE_witness:
  "attach_fails vm_no_attach \<and>
   result_of (HandleAndroidGesture vm_no_attach methods_resolved 1 0 0 0) = GESTURE_NONE \<and>
   \<not> list_ex is_managed_call (jni_calls (calls_of (HandleAndroidGesture vm_no_attach methods_resolved 1 0 0 0))) \<and>
   \<not> attach_fails vm_attached \<and>
   \<not> resolution_fails vm_attached methods_resolved (Op_HandleAndroidGesture 1 0 0 0) \<and>
   result_of (HandleAndroidGesture vm_attached methods_resolved 1 0 0 0) = GESTURE_NONE \<and>
   list_ex is_managed_call (jni_calls (calls_of (HandleAndroidGesture vm_attached methods_resolved 1 0 0 0)))"
proof -
  have a: "attach_fails vm_no_attach" "\<not> attach_fails vm_attached"
    by (simp_all add: attach_fails_def vm_defs)
  have r: "\<not> resolution_fails vm_attached methods_resolved (Op_HandleAndroidGesture 1 0 0 0)"
    by (simp add: resolution_fails_def methods_resolved_def)
  have z: "env_CallStaticIntMethod vm_attached (env_FindClass vm_attached GestureDetector_class)
      (g_handleGesture (methods_of (HandleAndroidGesture vm_attached methods_resolved 1 0 0 0)))
      [JInt 1, JFloat 0, JFloat 0, JLong 0] = 0"
    by (simp add: vm_defs)
  show ?thesis
    using a r z
      gesture_failure_is_GESTURE_NONE [of vm_no_attach methods_resolved 1 0 0 0]
      gesture_failure_is_GESTURE_NONE [of vm_attached methods_resolved 1 0 0 0]
    by simp
qed

subsection \<open>Forced and changed utterances\<close>

text \<open>
  C2, as amended. A call that is forced, or whose text differs from the remembered
  string, first overwrites the remembered string with the text and then reaches the
  backend with it, whether or not the text repeats the last one: on Linux it calls
  \<^verbatim>\<open>spd_say\<close>, on Android \<^verbatim>\<open>SpeakAndroidText\<close>, each exactly once and with the new
  text; on Windows it calls \<^verbatim>\<open>Tolk_Output\<close> exactly when the conversion of the text to
  UTF-16 is not \<^verbatim>\<open>nullptr\<close>, and makes no backend call otherwise.
\<close>

theorem forced_or_changed_SpeakText:
  assumes "force \<or> SpokenText s \<noteq> str"
  shows "SpokenText (SpeakText p h str force s) = str \<and>
     (p = Linux \<longrightarrow>
        backend_calls (SpeakText p h str force s) =
          backend_calls s @ [spd_say (Speechd s) (c_str str)]) \<and>
     (p = Android \<longrightarrow>
        backend_calls (SpeakText p h str force s) =
          backend_calls s @
            [SpeakAndroidText_call str force (calls_of (SpeakAndroidText (jvm h) (android s) str force))]) \<and>
     (p = Windows \<longrightarrow>
        backend_calls (SpeakText p h str force s) =
          backend_calls s @ (case ToWideChar h str of None \<Rightarrow> [] | Some w \<Rightarrow> [Tolk_Output w True]))"
  using assms
  by (cases p) (auto simp: SpeakText_def Let_def split: option.splits prod.splits)

text \<open>
  Two forced calls with one text on Linux speak twice; a changed text on Windows is
  converted and spoken; a forced call on Android reaches the managed \<^verbatim>\<open>speak\<close>.
\<close>

theorem forced_or_changed_SpeakText_witness:
  "SpokenText (SpeakText Linux host_ok ''Griswold'' True screen_reader_init) = ''Griswold'' \<and>
   backend_calls
     (SpeakText Linux host_ok ''Griswold'' True
        (SpeakText Linux host_ok ''Griswold'' True screen_reader_init)) =
     [spd_say None ''Griswold'', spd_say None ''Griswold''] \<and>
   backend_calls (SpeakText Windows host_ok ''Hi'' False screen_reader_init) =
     [Tolk_Output [72, 105] True] \<and>
   backend_calls (SpeakText Android host_ok ''Hi'' True (screen_reader_init\<lparr>android := methods_resolved\<rparr>)) =
     [SpeakAndroidText_call ''Hi'' True
        [JNI (GetEnv 0), JNI (NewStringUTF ''Hi''),
         JNI (FindClass AndroidTextToSpeech_class (Some 2)),
         JNI (CallStaticVoidMethod (Some 2) (Some 25) [JString ''Hi'', JBoolean 1]),
         JNI (DeleteLocalRef ''Hi'')]]"
  using forced_or_changed_SpeakText [of True screen_reader_init "''Griswold''" Linux host_ok]
    forced_or_changed_SpeakText
      [of True "SpeakText Linux host_ok ''Griswold'' True screen_reader_init" "''Griswold''" Linux host_ok]
    forced_or_changed_SpeakText [of False screen_reader_init "''Hi''" Windows host_ok]
    forced_or_changed_SpeakText [of True "screen_reader_init\<lparr>android := methods_resolved\<rparr>" "''Hi''" Android host_ok]
  by (simp add: SpeakText_def SpeakAndroidText_def screen_reader_init_def host_ok_def c_str_def
      vm_defs methods_resolved_def Let_def)

text \<open>
  C2, as stated, fails on Windows: when the conversion yields \<^verbatim>\<open>nullptr\<close>, the guard
  before \<^verbatim>\<open>Tolk_Output\<close> skips the call, so a forced \<open>SpeakText\<close> remembers the text and
  makes no backend call.
\<close>

theorem forced_SpeakText_without_backend_call:
  "SpokenText (SpeakText Windows host_no_conversion [] True screen_reader_init) = [] \<and>
   backend_calls (SpeakText Windows host_no_conversion [] True screen_reader_init) = []"
  by (simp add: SpeakText_def host_no_conversion_def screen_reader_init_def)

subsection \<open>Opening the connection\<close>

text \<open>
  C7, as amended. \<open>InitializeScreenReader\<close> opens the platform connection on Windows
  (\<^verbatim>\<open>Tolk_Load\<close>) and on Linux (\<^verbatim>\<open>spd_open\<close>, whose result, null or not, is stored in
  \<^verbatim>\<open>Speechd\<close>): it makes exactly one backend call, an opening one. On Android it does
  nothing and leaves the state as it is. It returns nothing but the state and never
  changes the remembered string; a failed \<^verbatim>\<open>spd_open\<close> is not reported.
\<close>

theorem InitializeScreenReader_opens_except_on_Android:
  "(p \<noteq> Android \<longrightarrow>
      (\<exists>c. backend_calls (InitializeScreenReader p h s) = backend_calls s @ [c] \<and> is_open_call c)) \<and>
   (p = Linux \<longrightarrow> Speechd (InitializeScreenReader p h s) = spd_open_result h) \<and>
   (p = Android \<longrightarrow> InitializeScreenReader p h s = s) \<and>
   SpokenText (InitializeScreenReader p h s) = SpokenText s"
  by (cases p) (simp_all add: InitializeScreenReader_def)

text \<open>
  The three platforms from the initial state, and Linux when \<^verbatim>\<open>spd_open\<close> fails.
\<close>

theorem InitializeScreenReader_opens_except_on_Android_witness:
  "backend_calls (InitializeScreenReader Windows host_ok screen_reader_init) = [Tolk_Load] \<and>
   backend_calls (InitializeScreenReader Linux host_ok screen_reader_init) =
     [spd_open ''DevilutionX'' ''DevilutionX'' (Some 1)] \<and>
   Speechd (InitializeScreenReader Linux host_ok screen_reader_init) = Some 1 \<and>
   Speechd (InitializeScreenReader Linux host_no_speechd screen_reader_init) = None \<and>
   InitializeScreenReader Android host_ok screen_reader_init = screen_reader_init"
  using InitializeScreenReader_opens_except_on_Android [of Windows host_ok screen_reader_init]
    InitializeScreenReader_opens_except_on_Android [of Linux host_ok screen_reader_init]
    InitializeScreenReader_opens_except_on_Android [of Linux host_no_speechd screen_reader_init]
    InitializeScreenReader_opens_except_on_Android [of Android host_ok screen_reader_init]
  by (simp add: InitializeScreenReader_def screen_reader_init_def host_ok_def host_no_speechd_def)

text \<open>
  C7, as stated, fails on Android: there \<open>InitializeScreenReader\<close> makes no backend call
  and acquires nothing.
\<close>

theorem InitializeScreenReader_Android_does_nothing:
  "InitializeScreenReader Android host_ok screen_reader_init = screen_reader_init \<and>
   backend_calls (InitializeScreenReader Android host_ok screen_reader_init) = []"
  by (simp add: InitializeScreenReader_def screen_reader_init_def)

end
